theory Spec2Isabelle
  imports Complex_Main
begin

section \<open>Numbers\<close>

text \<open>
  Timestamps (milliseconds, as \<^verbatim>\<open>Date.now()\<close> returns them), reputations, block
  heights, counters and the configured periods are JavaScript numbers that hold
  integers (of magnitude below two to the power \<open>53\<close>, where the arithmetic of
  the handlers is exact). They are modelled as \<^typ>\<open>int\<close>. The two quotients of the
  source, \<^verbatim>\<open>Math.floor(a / b)\<close> and \<^verbatim>\<open>Math.ceil(a / b)\<close>, are the floor
  and the ceiling of the exact quotient whenever the divisor is not zero; a zero
  divisor (where JavaScript produces an infinity or \<^verbatim>\<open>NaN\<close>) is outside the
  model, and every statement that depends on a quotient asks for a positive
  configured period.
\<close>

definition Math_floor_div :: "int \<Rightarrow> int \<Rightarrow> int" where
  "Math_floor_div a b = a div b"

definition Math_ceil_div :: "int \<Rightarrow> int \<Rightarrow> int" where
  "Math_ceil_div a b = - ((- a) div b)"


section \<open>Configuration\<close>

text \<open>
  \<^verbatim>\<open>config['ledger-consensus-continuity'].gossip.backoff\<close>; the handlers read
  the six fields below.
\<close>

record backoff_config =
  maxFailure :: int
  minFailure :: int
  maxFailureGracePeriod :: int
  maxIdle :: int
  minIdle :: int
  maxIdleGracePeriod :: int


section \<open>Peer records\<close>

record firstFailure_rec =
  ff_reputation :: int
  ff_time :: int

record idle_rec =
  idle_time :: int
  idle_localBlockHeight :: int

record cursor_rec =
  cursor_requiredBlockHeight :: int

text \<open>
  A cursor value as the handlers see it: \<^verbatim>\<open>undefined\<close>, \<^verbatim>\<open>null\<close> or a
  cursor object. Only an object is truthy, so a test \<^verbatim>\<open>if(cursor)\<close> is a case
  distinction on the constructor \<open>Cursor\<close>.
\<close>

datatype cursor_value = Undefined | Null | Cursor cursor_rec

record peer_status =
  backoffUntil :: int
  lastPullAt :: int
  lastPushAt :: int
  lastPullResult :: string
  cursor :: cursor_value
  requiredBlockHeight :: int
  consecutiveFailures :: int
  firstFailure :: "firstFailure_rec option"
  idle :: "idle_rec option"

record peer =
  peer_id :: string
  reputation :: int
  recommended :: bool
  status :: peer_status
  sequence :: int

text \<open>
  What a handler reads from \<^verbatim>\<open>worker.consensusState\<close>: the current witnesses
  (\<^verbatim>\<open>witnesses.has(id)\<close> is membership) and the local block height.
\<close>

record worker =
  witnesses :: "string set"
  blockHeight :: int

text \<open>
  The calls a \<^verbatim>\<open>GossipPeer\<close> makes that change the peers collection:
  \<^verbatim>\<open>_peers.delete({ledgerNode})\<close> and \<^verbatim>\<open>_peers.update({ledgerNode, peer})\<close>.
  The collection itself is not part of the class; the model records the calls in
  the order they are made, and covers the runs in which the awaited calls resolve.
\<close>

datatype peers_call = PeersDelete | PeersUpdate peer

text \<open>
  A \<^verbatim>\<open>GossipPeer\<close> instance: \<^verbatim>\<open>_peer\<close> (mutated in place by the handlers),
  \<^verbatim>\<open>_deleted\<close>, and the calls made so far, oldest first.
\<close>

record gossip_peer =
  gp_peer :: peer
  gp_deleted :: bool
  gp_calls :: "peers_call list"

definition GossipPeer :: "peer \<Rightarrow> gossip_peer" where
  "GossipPeer p = \<lparr>gp_peer = p, gp_deleted = False, gp_calls = []\<rparr>"

definition getStatus :: "gossip_peer \<Rightarrow> peer_status" where
  "getStatus gp = status (gp_peer gp)"

definition isRecommended :: "gossip_peer \<Rightarrow> bool" where
  "isRecommended gp = recommended (gp_peer gp)"

definition isDeleted :: "gossip_peer \<Rightarrow> bool" where
  "isDeleted gp = gp_deleted gp"

definition isNotifier :: "gossip_peer \<Rightarrow> bool" where
  "isNotifier gp = (lastPushAt (status (gp_peer gp)) > lastPullAt (status (gp_peer gp)))"

definition delete :: "gossip_peer \<Rightarrow> gossip_peer" where
  "delete gp =
     (if gp_deleted gp then gp
      else gp\<lparr>gp_calls := gp_calls gp @ [PeersDelete], gp_deleted := True\<rparr>)"

definition peers_update :: "gossip_peer \<Rightarrow> gossip_peer" where
  "peers_update gp = gp\<lparr>gp_calls := gp_calls gp @ [PeersUpdate (gp_peer gp)]\<rparr>"


section \<open>Outcomes\<close>

text \<open>
  The three ways a handler ends: after \<^verbatim>\<open>this.delete()\<close>, after
  \<^verbatim>\<open>_peers.update\<close>, or by an exception. The instance is returned in each case,
  since the handlers mutate \<^verbatim>\<open>_peer\<close> in place before they return or throw.
\<close>

datatype js_error = TypeError

datatype outcome = Deleted | Updated | Threw js_error


section \<open>The failure handler\<close>

text \<open>
  The arguments of \<^verbatim>\<open>fail({error, cursor, fatal = false})\<close>. \<open>error\<close> is the
  string \<^verbatim>\<open>error.toString()\<close> of the error object passed.
\<close>

record fail_args =
  error :: string
  fail_cursor :: cursor_value
  fatal :: bool

text \<open>
  \<^verbatim>\<open>fail\<close> reads the clock three times: for \<^verbatim>\<open>lastPullAt\<close>, for the total
  failure time, and for the backoff.
\<close>

record fail_clock =
  fail_now_pull :: int
  fail_now_total :: int
  fail_now_backoff :: int

text \<open>Lines 78 to 81: the failure is counted and recorded, the idle record dropped.\<close>

definition fail_status :: "fail_clock \<Rightarrow> string \<Rightarrow> peer \<Rightarrow> peer" where
  "fail_status clk err p =
     p\<lparr>status := (status p)
         \<lparr>consecutiveFailures := consecutiveFailures (status p) + 1,
          lastPullAt := fail_now_pull clk,
          lastPullResult := err,
          idle := None\<rparr>\<rparr>"

text \<open>
  Lines 84 to 106: the reputation update. Reading \<^verbatim>\<open>status.firstFailure.time\<close>
  throws a \<^verbatim>\<open>TypeError\<close> when there is no \<^verbatim>\<open>firstFailure\<close>.
\<close>

definition fail_reputation :: "backoff_config \<Rightarrow> fail_clock \<Rightarrow> peer \<Rightarrow> js_error + peer" where
  "fail_reputation cfg clk p =
     (if consecutiveFailures (status p) = 1 then
        Inr (p\<lparr>status := (status p)
                 \<lparr>firstFailure := Some \<lparr>ff_reputation = reputation p,
                                         ff_time = lastPullAt (status p)\<rparr>\<rparr>,
               reputation := reputation p - 1\<rparr>)
      else
        (case firstFailure (status p) of
           None \<Rightarrow> Inl TypeError
         | Some ff \<Rightarrow>
             let totalFailTime = fail_now_total clk - ff_time ff;
                 points = Math_floor_div totalFailTime (maxFailureGracePeriod cfg) * 100;
                 startReputation = ff_reputation ff
             in Inr (p\<lparr>reputation := min (startReputation - 1) (startReputation - points)\<rparr>)))"

text \<open>
  Lines 108 to 118, and again lines 227 to 235: a negative reputation. \<open>None\<close>
  is the branch that deletes the peer and returns.
\<close>

definition negative_reputation :: "worker \<Rightarrow> peer \<Rightarrow> peer option" where
  "negative_reputation w p =
     (if reputation p < 0 then
        (if peer_id p \<notin> witnesses w then None
         else Some (p\<lparr>reputation := 0\<rparr>))
      else Some p)"

text \<open>Lines 121 to 123.\<close>

definition fail_backoff :: "backoff_config \<Rightarrow> fail_clock \<Rightarrow> peer \<Rightarrow> peer" where
  "fail_backoff cfg clk p =
     p\<lparr>status := (status p)
         \<lparr>backoffUntil := fail_now_backoff clk +
            min (maxFailure cfg) (consecutiveFailures (status p) * minFailure cfg)\<rparr>\<rparr>"

text \<open>Lines 126 to 131; the first assignment is \<^verbatim>\<open>status.cursor = status.cursor\<close>.\<close>

definition fail_set_cursor :: "cursor_value \<Rightarrow> peer \<Rightarrow> peer" where
  "fail_set_cursor c p =
     (if c \<noteq> Undefined then
        (let st = (status p)\<lparr>cursor := cursor (status p)\<rparr>
         in case c of
              Cursor co \<Rightarrow> p\<lparr>status := st\<lparr>requiredBlockHeight := cursor_requiredBlockHeight co\<rparr>\<rparr>
            | _ \<Rightarrow> p\<lparr>status := st\<rparr>)
      else p)"

text \<open>Lines 134 and 135, and again lines 239 and 240.\<close>

definition commit :: "gossip_peer \<Rightarrow> peer \<Rightarrow> gossip_peer" where
  "commit gp p = peers_update (gp\<lparr>gp_peer := p\<lparr>sequence := sequence p + 1\<rparr>\<rparr>)"

definition fail ::
  "backoff_config \<Rightarrow> worker \<Rightarrow> fail_clock \<Rightarrow> fail_args \<Rightarrow> gossip_peer \<Rightarrow> outcome \<times> gossip_peer"
where
  "fail cfg w clk args gp =
     (if fatal args then (Deleted, delete gp)
      else
        let p0 = fail_status clk (error args) (gp_peer gp) in
        (case fail_reputation cfg clk p0 of
           Inl e \<Rightarrow> (Threw e, gp\<lparr>gp_peer := p0\<rparr>)
         | Inr p1 \<Rightarrow>
             (case negative_reputation w p1 of
                None \<Rightarrow> (Deleted, delete (gp\<lparr>gp_peer := p1\<rparr>))
              | Some p2 \<Rightarrow>
                  (Updated,
                   commit gp (fail_set_cursor (fail_cursor args) (fail_backoff cfg clk p2))))))"


section \<open>The success handler\<close>

text \<open>
  The arguments of \<^verbatim>\<open>success({mergeEventsReceived, cursor = null})\<close>;
  \<open>mergeEventsReceived\<close> is the truthiness of the value passed.
\<close>

record success_args =
  mergeEventsReceived :: bool
  success_cursor :: cursor_value

text \<open>
  \<^verbatim>\<open>success\<close> reads the clock for \<^verbatim>\<open>backoffUntil\<close>, for
  \<^verbatim>\<open>lastPullAt\<close>, and once more in each of the three idle branches.
\<close>

record success_clock =
  success_now_backoff :: int
  success_now_pull :: int
  success_now_idle :: int

text \<open>The default value \<^verbatim>\<open>cursor = null\<close> of the parameter.\<close>

definition cursor_or_null :: "cursor_value \<Rightarrow> cursor_value" where
  "cursor_or_null c = (if c = Undefined then Null else c)"

text \<open>Lines 170 to 178.\<close>

definition success_status :: "success_clock \<Rightarrow> cursor_value \<Rightarrow> peer \<Rightarrow> peer" where
  "success_status clk c p =
     (let st = (status p)
           \<lparr>backoffUntil := success_now_backoff clk,
            lastPullAt := success_now_pull clk,
            lastPullResult := ''success'',
            cursor := c\<rparr>;
          st' = (case c of
                   Cursor co \<Rightarrow> st\<lparr>requiredBlockHeight := cursor_requiredBlockHeight co\<rparr>
                 | _ \<Rightarrow> st)
      in p\<lparr>status := st'\<lparr>consecutiveFailures := 0, firstFailure := None\<rparr>\<rparr>)"

text \<open>Lines 219 to 226: the penalty of a peer that idles while the block height changes.\<close>

definition idle_penalty :: "backoff_config \<Rightarrow> worker \<Rightarrow> success_clock \<Rightarrow> idle_rec \<Rightarrow> peer \<Rightarrow> peer" where
  "idle_penalty cfg w clk i p =
     (let totalIdleTime = success_now_idle clk - idle_time i;
          timePerPoint = Math_ceil_div (maxIdleGracePeriod cfg) 100;
          points = Math_floor_div totalIdleTime timePerPoint
      in p\<lparr>reputation := reputation p - points,
            status := (status p)
              \<lparr>idle := Some \<lparr>idle_time = idle_time i + points * timePerPoint,
                              idle_localBlockHeight = blockHeight w\<rparr>,
               backoffUntil := backoffUntil (status p) +
                 min (minIdle cfg * max 1 points) (maxIdle cfg)\<rparr>\<rparr>)"

text \<open>
  Lines 203 to 236. The result is \<open>Inl\<close> of the record as it stands when the
  branch deletes the peer and returns, \<open>Inr\<close> of the record to be stored otherwise.
\<close>

definition success_reputation ::
  "backoff_config \<Rightarrow> worker \<Rightarrow> success_clock \<Rightarrow> bool \<Rightarrow> peer \<Rightarrow> peer + peer"
where
  "success_reputation cfg w clk mer p =
     (if mer then
        Inr (p\<lparr>reputation := min 100 (reputation p + 1),
               status := (status p)\<lparr>idle := None\<rparr>\<rparr>)
      else
        (case idle (status p) of
           None \<Rightarrow>
             Inr (p\<lparr>status := (status p)
                    \<lparr>idle := Some \<lparr>idle_time = success_now_idle clk,
                                    idle_localBlockHeight = blockHeight w\<rparr>\<rparr>\<rparr>)
         | Some i \<Rightarrow>
             if idle_localBlockHeight i = blockHeight w then
               Inr (p\<lparr>status := (status p)
                      \<lparr>idle := Some (i\<lparr>idle_time := success_now_idle clk\<rparr>)\<rparr>\<rparr>)
             else
               (let p' = idle_penalty cfg w clk i p
                in case negative_reputation w p' of
                     None \<Rightarrow> Inl p'
                   | Some p'' \<Rightarrow> Inr p'')))"

text \<open>
  \<open>peerCount\<close> is what \<^verbatim>\<open>ledgerNode.peers.count({maxReputation: 0})\<close> answers;
  the handler asks only for a peer of reputation \<open>0\<close> that is not a witness.
\<close>

definition success ::
  "backoff_config \<Rightarrow> worker \<Rightarrow> success_clock \<Rightarrow> success_args \<Rightarrow> int \<Rightarrow> gossip_peer
     \<Rightarrow> outcome \<times> gossip_peer"
where
  "success cfg w clk args peerCount gp =
     (let p = gp_peer gp;
          isWitness = (peer_id p \<in> witnesses w)
      in if \<not> isWitness \<and> reputation p = 0 \<and> peerCount \<ge> 100 then (Deleted, delete gp)
         else
           (case success_reputation cfg w clk (mergeEventsReceived args)
                   (success_status clk (cursor_or_null (success_cursor args)) p) of
              Inl p' \<Rightarrow> (Deleted, delete (gp\<lparr>gp_peer := p'\<rparr>))
            | Inr p' \<Rightarrow> (Updated, commit gp p')))"


section \<open>Derived notions\<close>

text \<open>
  The capacity check at the head of \<^verbatim>\<open>success\<close> (lines 147 to 164) drops the
  peer: it is not a witness, its reputation is exactly \<open>0\<close>, and the count the
  collection answers is at least \<open>100\<close>.
\<close>

definition capacity_drop :: "worker \<Rightarrow> int \<Rightarrow> peer \<Rightarrow> bool" where
  "capacity_drop w peerCount p \<longleftrightarrow>
     peer_id p \<notin> witnesses w \<and> reputation p = 0 \<and> 100 \<le> peerCount"

text \<open>The reputation of a peer record lies in the interval from \<open>0\<close> to \<open>100\<close>.\<close>

definition reputation_bounded :: "peer \<Rightarrow> bool" where
  "reputation_bounded p \<longleftrightarrow> 0 \<le> reputation p \<and> reputation p \<le> 100"

text \<open>
  The reputation snapshotted at the first failure, if there is one, is at most
  \<open>100\<close>; the time of the idle record, if there is one, is not after \<open>now\<close>.
\<close>

definition snapshot_bounded :: "peer \<Rightarrow> bool" where
  "snapshot_bounded p \<longleftrightarrow>
     (case firstFailure (status p) of None \<Rightarrow> True | Some ff \<Rightarrow> ff_reputation ff \<le> 100)"

definition idle_not_after :: "int \<Rightarrow> peer \<Rightarrow> bool" where
  "idle_not_after now p \<longleftrightarrow>
     (case idle (status p) of None \<Rightarrow> True | Some i \<Rightarrow> idle_time i \<le> now)"


section \<open>The peers collection\<close>

text \<open>
  Modelled from the spec: the peers collection, which is not among the sources. The
  spec gives the storage collaborator the operations \<^verbatim>\<open>get/put/delete/count\<close> on
  peers, and \<^verbatim>\<open>count(maxReputation)\<close> as the number of stored peers whose
  reputation is at most \<open>maxReputation\<close>. A collection is the list of its records;
  an update replaces the record with the same id, a delete removes the record of the
  instance that asks for it.
\<close>

definition count_peers :: "int \<Rightarrow> peer list \<Rightarrow> int" where
  "count_peers maxReputation st =
     int (length (filter (\<lambda>p. reputation p \<le> maxReputation) st))"

text \<open>
  Modelled from the spec: the effect on the collection of a call recorded by an
  instance whose peer has the id \<open>pid\<close> (\<open>put\<close> and \<open>delete\<close> of the
  storage collaborator).
\<close>

fun apply_call :: "string \<Rightarrow> peers_call \<Rightarrow> peer list \<Rightarrow> peer list" where
  "apply_call pid PeersDelete st = filter (\<lambda>q. peer_id q \<noteq> pid) st"
| "apply_call pid (PeersUpdate p) st = map (\<lambda>q. if peer_id q = peer_id p then p else q) st"

text \<open>
  Modelled from the spec: a success handler run against a collection. The count
  the handler reads is the collection's, and the calls the handler makes are applied
  to the collection in order.
\<close>

definition success_commit ::
  "backoff_config \<Rightarrow> worker \<Rightarrow> success_clock \<Rightarrow> success_args \<Rightarrow> peer list \<Rightarrow> gossip_peer
     \<Rightarrow> outcome \<times> gossip_peer \<times> peer list"
where
  "success_commit cfg w clk args st gp =
     (let (oc, gp') = success cfg w clk args (count_peers 0 st) gp
      in (oc, gp',
          fold (apply_call (peer_id (gp_peer gp))) (drop (length (gp_calls gp)) (gp_calls gp')) st))"


section \<open>Concrete inputs\<close>

definition example_config :: backoff_config where
  "example_config =
     \<lparr>maxFailure = 60000, minFailure = 5000, maxFailureGracePeriod = 3600000,
      maxIdle = 30000, minIdle = 1000, maxIdleGracePeriod = 600000\<rparr>"

definition example_status :: peer_status where
  "example_status =
     \<lparr>backoffUntil = 0, lastPullAt = 0, lastPushAt = 0, lastPullResult = [],
      cursor = Null, requiredBlockHeight = 0, consecutiveFailures = 0,
      firstFailure = None, idle = None\<rparr>"

definition example_peer :: peer where
  "example_peer =
     \<lparr>peer_id = ''peer-a'', reputation = 50, recommended = False,
      status = example_status, sequence = 0\<rparr>"

text \<open>A peer that has failed twice, the first time at time \<open>0\<close> with reputation \<open>50\<close>.\<close>

definition failing_peer :: peer where
  "failing_peer =
     example_peer\<lparr>reputation := 49,
       status := example_status
         \<lparr>consecutiveFailures := 2,
          firstFailure := Some \<lparr>ff_reputation = 50, ff_time = 0\<rparr>\<rparr>\<rparr>"

text \<open>A peer that has been idle since time \<open>7194002\<close>, recorded at block height \<open>6\<close>.\<close>

definition idle_peer :: peer where
  "idle_peer =
     example_peer\<lparr>status := example_status
       \<lparr>idle := Some \<lparr>idle_time = 7194002, idle_localBlockHeight = 6\<rparr>\<rparr>\<rparr>"

definition example_worker :: worker where
  "example_worker = \<lparr>witnesses = {''witness-1''}, blockHeight = 7\<rparr>"

definition example_fail_clock :: fail_clock where
  "example_fail_clock =
     \<lparr>fail_now_pull = 7200000, fail_now_total = 7200001, fail_now_backoff = 7200002\<rparr>"

definition example_success_clock :: success_clock where
  "example_success_clock =
     \<lparr>success_now_backoff = 7200000, success_now_pull = 7200001, success_now_idle = 7200002\<rparr>"

definition network_failure :: fail_args where
  "network_failure = \<lparr>error = ''NetworkError'', fail_cursor = Undefined, fatal = False\<rparr>"

definition protocol_violation :: fail_args where
  "protocol_violation =
     \<lparr>error = ''ValidationError'',
      fail_cursor = Cursor \<lparr>cursor_requiredBlockHeight = 9\<rparr>, fatal = True\<rparr>"

definition no_events :: success_args where
  "no_events = \<lparr>mergeEventsReceived = False, success_cursor = Null\<rparr>"

definition new_events :: success_args where
  "new_events =
     \<lparr>mergeEventsReceived = True,
      success_cursor = Cursor \<lparr>cursor_requiredBlockHeight = 9\<rparr>\<rparr>"

text \<open>
  A collection of \<open>n\<close> peers of reputation \<open>0\<close>, with the ids \<open>z\<close>, \<open>zz\<close>,
  \<open>zzz\<close> and so on.
\<close>

definition zero_peers :: "nat \<Rightarrow> peer list" where
  "zero_peers n =
     map (\<lambda>k. example_peer\<lparr>peer_id := replicate (Suc k) CHR ''z'', reputation := 0\<rparr>) [0..<n]"

text \<open>
  An idle peer with one point of reputation left, and a collection that holds it
  after \<open>100\<close> peers of reputation \<open>0\<close>.
\<close>

definition last_point_peer :: peer where
  "last_point_peer = idle_peer\<lparr>reputation := 1\<rparr>"

definition full_collection :: "peer list" where
  "full_collection = zero_peers 100 @ [last_point_peer]"

text \<open>
  A peer of full reputation; a later call at block height \<open>8\<close>, whose clock
  readings are \<open>6000\<close> milliseconds before those of \<open>example_success_clock\<close>.
\<close>

definition full_reputation_peer :: peer where
  "full_reputation_peer = example_peer\<lparr>reputation := 100\<rparr>"

definition next_worker :: worker where
  "next_worker = example_worker\<lparr>blockHeight := 8\<rparr>"

definition stepped_back_clock :: success_clock where
  "stepped_back_clock =
     \<lparr>success_now_backoff = 7194000, success_now_pull = 7194001, success_now_idle = 7194002\<rparr>"


section \<open>Auxiliary facts\<close>

subsection \<open>Quotients\<close>

lemma Math_floor_div_real:
  "b \<noteq> 0 \<Longrightarrow> Math_floor_div a b = \<lfloor>real_of_int a / real_of_int b\<rfloor>"
  by (simp add: Math_floor_div_def floor_divide_of_int_eq)

lemma Math_ceil_div_real:
  "b \<noteq> 0 \<Longrightarrow> Math_ceil_div a b = \<lceil>real_of_int a / real_of_int b\<rceil>"
  by (simp add: Math_ceil_div_def ceiling_divide_eq_div)

lemma Math_ceil_div_100_pos: "0 < m \<Longrightarrow> 0 < Math_ceil_div m 100"
  unfolding Math_ceil_div_def by linarith

lemma ceil_to_Math: "\<lceil>real_of_int m / 100\<rceil> = Math_ceil_div m 100"
  using Math_ceil_div_real [of 100 m] by simp

lemma floor_to_Math: "b \<noteq> 0 \<Longrightarrow> \<lfloor>real_of_int a / real_of_int b\<rfloor> = Math_floor_div a b"
  by (simp add: Math_floor_div_real)

lemma Math_floor_div_nonneg: "0 < b \<Longrightarrow> 0 \<le> a \<Longrightarrow> 0 \<le> Math_floor_div a b"
  by (simp add: Math_floor_div_def pos_imp_zdiv_nonneg_iff)

lemma Math_floor_div_mult_le: "0 < b \<Longrightarrow> Math_floor_div a b * b \<le> a"
proof -
  assume "0 < b"
  then have "0 \<le> a mod b" by simp
  moreover have "a = a div b * b + a mod b" by simp
  ultimately show ?thesis unfolding Math_floor_div_def by linarith
qed

subsection \<open>What each block leaves alone\<close>

lemma fail_status_sel [simp]:
  "peer_id (fail_status clk e p) = peer_id p"
  "reputation (fail_status clk e p) = reputation p"
  "recommended (fail_status clk e p) = recommended p"
  "sequence (fail_status clk e p) = sequence p"
  "status (fail_status clk e p) =
     (status p)\<lparr>consecutiveFailures := consecutiveFailures (status p) + 1,
                lastPullAt := fail_now_pull clk, lastPullResult := e, idle := None\<rparr>"
  by (simp_all add: fail_status_def)

lemma fail_reputation_Inr:
  "fail_reputation cfg clk p = Inr q \<longleftrightarrow>
     (consecutiveFailures (status p) = 1 \<and>
      q = p\<lparr>status := (status p)\<lparr>firstFailure :=
               Some \<lparr>ff_reputation = reputation p, ff_time = lastPullAt (status p)\<rparr>\<rparr>,
            reputation := reputation p - 1\<rparr>) \<or>
     (consecutiveFailures (status p) \<noteq> 1 \<and>
      (\<exists>ff. firstFailure (status p) = Some ff \<and>
        q = p\<lparr>reputation := min (ff_reputation ff - 1)
               (ff_reputation ff -
                Math_floor_div (fail_now_total clk - ff_time ff) (maxFailureGracePeriod cfg) * 100)\<rparr>))"
  by (auto simp: fail_reputation_def Let_def split: option.splits)

lemma fail_reputation_Inl:
  "fail_reputation cfg clk p = Inl e \<longleftrightarrow>
     e = TypeError \<and> consecutiveFailures (status p) \<noteq> 1 \<and> firstFailure (status p) = None"
  by (auto simp: fail_reputation_def Let_def split: option.splits)

lemma negative_reputation_None:
  "negative_reputation w p = None \<longleftrightarrow> reputation p < 0 \<and> peer_id p \<notin> witnesses w"
  by (simp add: negative_reputation_def)

lemma negative_reputation_Some:
  "negative_reputation w p = Some q \<longleftrightarrow>
     q = p\<lparr>reputation := (if reputation p < 0 then 0 else reputation p)\<rparr> \<and>
     (reputation p < 0 \<longrightarrow> peer_id p \<in> witnesses w)"
  by (auto simp: negative_reputation_def)

lemma fail_backoff_sel [simp]:
  "peer_id (fail_backoff cfg clk p) = peer_id p"
  "reputation (fail_backoff cfg clk p) = reputation p"
  "recommended (fail_backoff cfg clk p) = recommended p"
  "sequence (fail_backoff cfg clk p) = sequence p"
  "status (fail_backoff cfg clk p) =
     (status p)\<lparr>backoffUntil := fail_now_backoff clk +
        min (maxFailure cfg) (consecutiveFailures (status p) * minFailure cfg)\<rparr>"
  by (simp_all add: fail_backoff_def)

lemma fail_set_cursor_sel [simp]:
  "peer_id (fail_set_cursor c p) = peer_id p"
  "reputation (fail_set_cursor c p) = reputation p"
  "recommended (fail_set_cursor c p) = recommended p"
  "sequence (fail_set_cursor c p) = sequence p"
  "status (fail_set_cursor c p) =
     (case c of Cursor co \<Rightarrow> (status p)\<lparr>requiredBlockHeight := cursor_requiredBlockHeight co\<rparr>
      | _ \<Rightarrow> status p)"
  by (simp_all add: fail_set_cursor_def Let_def split: cursor_value.splits)

lemma commit_sel [simp]:
  "gp_peer (commit gp p) = p\<lparr>sequence := sequence p + 1\<rparr>"
  "gp_deleted (commit gp p) = gp_deleted gp"
  "gp_calls (commit gp p) = gp_calls gp @ [PeersUpdate (p\<lparr>sequence := sequence p + 1\<rparr>)]"
  by (simp_all add: commit_def peers_update_def)

lemma delete_sel [simp]:
  "gp_peer (delete gp) = gp_peer gp"
  "gp_deleted (delete gp) = True"
  "gp_calls (delete gp) = (if gp_deleted gp then gp_calls gp else gp_calls gp @ [PeersDelete])"
  by (simp_all add: delete_def)

lemma success_status_sel [simp]:
  "peer_id (success_status clk c p) = peer_id p"
  "reputation (success_status clk c p) = reputation p"
  "recommended (success_status clk c p) = recommended p"
  "sequence (success_status clk c p) = sequence p"
  "status (success_status clk c p) =
     (status p)\<lparr>backoffUntil := success_now_backoff clk,
                lastPullAt := success_now_pull clk,
                lastPullResult := ''success'',
                cursor := c,
                requiredBlockHeight :=
                  (case c of Cursor co \<Rightarrow> cursor_requiredBlockHeight co
                   | _ \<Rightarrow> requiredBlockHeight (status p)),
                consecutiveFailures := 0,
                firstFailure := None\<rparr>"
  by (simp_all add: success_status_def Let_def split: cursor_value.splits)

lemma idle_penalty_sel [simp]:
  "peer_id (idle_penalty cfg w clk i p) = peer_id p"
  "recommended (idle_penalty cfg w clk i p) = recommended p"
  "sequence (idle_penalty cfg w clk i p) = sequence p"
  "reputation (idle_penalty cfg w clk i p) =
     reputation p -
     Math_floor_div (success_now_idle clk - idle_time i) (Math_ceil_div (maxIdleGracePeriod cfg) 100)"
  "status (idle_penalty cfg w clk i p) =
     (status p)
       \<lparr>idle := Some \<lparr>idle_time = idle_time i +
                Math_floor_div (success_now_idle clk - idle_time i)
                  (Math_ceil_div (maxIdleGracePeriod cfg) 100) *
                Math_ceil_div (maxIdleGracePeriod cfg) 100,
              idle_localBlockHeight = blockHeight w\<rparr>,
        backoffUntil := backoffUntil (status p) +
          min (minIdle cfg *
                 max 1 (Math_floor_div (success_now_idle clk - idle_time i)
                          (Math_ceil_div (maxIdleGracePeriod cfg) 100)))
              (maxIdle cfg)\<rparr>"
  by (simp_all add: idle_penalty_def Let_def)

subsection \<open>The ways the handlers end\<close>

lemma fail_cases:
  "fail cfg w clk args gp = (oc, gp') \<longleftrightarrow>
     (fatal args \<and> oc = Deleted \<and> gp' = delete gp) \<or>
     (\<not> fatal args \<and>
        (\<exists>e. fail_reputation cfg clk (fail_status clk (error args) (gp_peer gp)) = Inl e \<and>
             oc = Threw e \<and> gp' = gp\<lparr>gp_peer := fail_status clk (error args) (gp_peer gp)\<rparr>)) \<or>
     (\<not> fatal args \<and>
        (\<exists>p1. fail_reputation cfg clk (fail_status clk (error args) (gp_peer gp)) = Inr p1 \<and>
           negative_reputation w p1 = None \<and>
           oc = Deleted \<and> gp' = delete (gp\<lparr>gp_peer := p1\<rparr>))) \<or>
     (\<not> fatal args \<and>
        (\<exists>p1 p2. fail_reputation cfg clk (fail_status clk (error args) (gp_peer gp)) = Inr p1 \<and>
           negative_reputation w p1 = Some p2 \<and>
           oc = Updated \<and>
           gp' = commit gp (fail_set_cursor (fail_cursor args) (fail_backoff cfg clk p2))))"
  by (auto simp: fail_def Let_def split: sum.splits option.splits)

lemma success_gate:
  "success cfg w clk args peerCount gp =
     (if capacity_drop w peerCount (gp_peer gp) then (Deleted, delete gp)
      else
        (case success_reputation cfg w clk (mergeEventsReceived args)
                (success_status clk (cursor_or_null (success_cursor args)) (gp_peer gp)) of
           Inl p' \<Rightarrow> (Deleted, delete (gp\<lparr>gp_peer := p'\<rparr>))
         | Inr p' \<Rightarrow> (Updated, commit gp p')))"
  by (simp add: success_def capacity_drop_def Let_def)

lemma success_dropped:
  "capacity_drop w peerCount (gp_peer gp) \<Longrightarrow>
   success cfg w clk args peerCount gp = (Deleted, delete gp)"
  by (simp add: success_gate)

lemma success_merge:
  assumes "\<not> capacity_drop w peerCount (gp_peer gp)"
    and "mergeEventsReceived args"
  shows "success cfg w clk args peerCount gp =
    (Updated, commit gp
       ((success_status clk (cursor_or_null (success_cursor args)) (gp_peer gp))
          \<lparr>reputation := min 100 (reputation (gp_peer gp) + 1),
           status := (status (success_status clk (cursor_or_null (success_cursor args)) (gp_peer gp)))
             \<lparr>idle := None\<rparr>\<rparr>))"
  using assms by (simp add: success_gate success_reputation_def)

lemma success_idle_start:
  assumes "\<not> capacity_drop w peerCount (gp_peer gp)"
    and "\<not> mergeEventsReceived args"
    and "idle (status (gp_peer gp)) = None"
  shows "success cfg w clk args peerCount gp =
    (Updated, commit gp
       ((success_status clk (cursor_or_null (success_cursor args)) (gp_peer gp))
          \<lparr>status := (status (success_status clk (cursor_or_null (success_cursor args)) (gp_peer gp)))
             \<lparr>idle := Some \<lparr>idle_time = success_now_idle clk,
                             idle_localBlockHeight = blockHeight w\<rparr>\<rparr>\<rparr>))"
  using assms by (simp add: success_gate success_reputation_def)

lemma success_idle_same_height:
  assumes "\<not> capacity_drop w peerCount (gp_peer gp)"
    and "\<not> mergeEventsReceived args"
    and "idle (status (gp_peer gp)) = Some i"
    and "idle_localBlockHeight i = blockHeight w"
  shows "success cfg w clk args peerCount gp =
    (Updated, commit gp
       ((success_status clk (cursor_or_null (success_cursor args)) (gp_peer gp))
          \<lparr>status := (status (success_status clk (cursor_or_null (success_cursor args)) (gp_peer gp)))
             \<lparr>idle := Some (i\<lparr>idle_time := success_now_idle clk\<rparr>)\<rparr>\<rparr>))"
  using assms by (simp add: success_gate success_reputation_def)

lemma success_idle_penalty:
  assumes "\<not> capacity_drop w peerCount (gp_peer gp)"
    and "\<not> mergeEventsReceived args"
    and "idle (status (gp_peer gp)) = Some i"
    and "idle_localBlockHeight i \<noteq> blockHeight w"
  shows "success cfg w clk args peerCount gp =
    (let p' = idle_penalty cfg w clk i
                (success_status clk (cursor_or_null (success_cursor args)) (gp_peer gp))
     in if reputation p' < 0 then
          (if peer_id (gp_peer gp) \<notin> witnesses w then (Deleted, delete (gp\<lparr>gp_peer := p'\<rparr>))
           else (Updated, commit gp (p'\<lparr>reputation := 0\<rparr>)))
        else (Updated, commit gp p'))"
  using assms by (simp add: success_gate success_reputation_def negative_reputation_def Let_def)


lemma success_idle_penalty_Updated:
  assumes "\<not> capacity_drop w peerCount (gp_peer gp)"
    and "\<not> mergeEventsReceived args"
    and "idle (status (gp_peer gp)) = Some i"
    and "idle_localBlockHeight i \<noteq> blockHeight w"
    and "p' = idle_penalty cfg w clk i
                (success_status clk (cursor_or_null (success_cursor args)) (gp_peer gp))"
    and "\<not> (reputation p' < 0 \<and> peer_id (gp_peer gp) \<notin> witnesses w)"
  shows "success cfg w clk args peerCount gp =
           (Updated, commit gp (p'\<lparr>reputation := (if reputation p' < 0 then 0 else reputation p')\<rparr>))"
  using assms(5,6) unfolding success_idle_penalty [OF assms(1-4)] Let_def
  by (cases "reputation p' < 0") auto

lemma success_idle_penalty_Deleted:
  assumes "\<not> capacity_drop w peerCount (gp_peer gp)"
    and "\<not> mergeEventsReceived args"
    and "idle (status (gp_peer gp)) = Some i"
    and "idle_localBlockHeight i \<noteq> blockHeight w"
    and "p' = idle_penalty cfg w clk i
                (success_status clk (cursor_or_null (success_cursor args)) (gp_peer gp))"
    and "reputation p' < 0 \<and> peer_id (gp_peer gp) \<notin> witnesses w"
  shows "success cfg w clk args peerCount gp = (Deleted, delete (gp\<lparr>gp_peer := p'\<rparr>))"
  using assms(5,6) unfolding success_idle_penalty [OF assms(1-4)] Let_def
  by auto

lemma cursor_or_null_case [simp]:
  "(case cursor_or_null c of Cursor co \<Rightarrow> f co | _ \<Rightarrow> d) =
   (case c of Cursor co \<Rightarrow> f co | _ \<Rightarrow> d)"
  by (cases c) (simp_all add: cursor_or_null_def)

lemma idle_branches:
  obtains (merge) "mergeEventsReceived args"
  | (start) "\<not> mergeEventsReceived args" "idle (status p) = None"
  | (same) i where "\<not> mergeEventsReceived args" "idle (status p) = Some i"
      "idle_localBlockHeight i = blockHeight w"
  | (penalty) i where "\<not> mergeEventsReceived args" "idle (status p) = Some i"
      "idle_localBlockHeight i \<noteq> blockHeight w"
  by (cases "idle (status p)") auto


lemma fail_reputation_peer_id:
  "fail_reputation cfg clk p = Inr q \<Longrightarrow> peer_id q = peer_id p"
  by (auto simp: fail_reputation_Inr)

lemma fail_Threw_path:
  assumes "\<not> fatal args"
    and "fail_reputation cfg clk (fail_status clk (error args) (gp_peer gp)) = Inl e"
  shows "fail cfg w clk args gp =
           (Threw e, gp\<lparr>gp_peer := fail_status clk (error args) (gp_peer gp)\<rparr>)"
  using assms by (simp add: fail_def)

lemma fail_Deleted_path:
  assumes "\<not> fatal args"
    and "fail_reputation cfg clk (fail_status clk (error args) (gp_peer gp)) = Inr p1"
    and "reputation p1 < 0 \<and> peer_id (gp_peer gp) \<notin> witnesses w"
  shows "fail cfg w clk args gp = (Deleted, delete (gp\<lparr>gp_peer := p1\<rparr>))"
  using assms fail_reputation_peer_id [OF assms(2)]
  by (simp add: fail_def negative_reputation_def)

lemma fail_Updated_path:
  assumes "\<not> fatal args"
    and "fail_reputation cfg clk (fail_status clk (error args) (gp_peer gp)) = Inr p1"
    and "\<not> (reputation p1 < 0 \<and> peer_id (gp_peer gp) \<notin> witnesses w)"
  shows "fail cfg w clk args gp =
           (Updated,
            commit gp (fail_set_cursor (fail_cursor args) (fail_backoff cfg clk
              (p1\<lparr>reputation := (if reputation p1 < 0 then 0 else reputation p1)\<rparr>))))"
  using assms fail_reputation_peer_id [OF assms(2)]
  by (cases "reputation p1 < 0") (simp_all add: fail_def negative_reputation_def)

subsection \<open>The bounds on a retained record\<close>

lemma fail_keeps_bounds:
  assumes "reputation_bounded (gp_peer gp)" and "snapshot_bounded (gp_peer gp)"
    and "fail cfg w clk args gp = (oc, gp')" and "oc \<noteq> Deleted"
  shows "reputation_bounded (gp_peer gp') \<and> snapshot_bounded (gp_peer gp') \<and>
         idle (status (gp_peer gp')) = None \<and>
         (oc = Updated \<longrightarrow> gp_calls gp' = gp_calls gp @ [PeersUpdate (gp_peer gp')])"
proof -
  from assms(3,4) have nf: "\<not> fatal args" by (auto simp: fail_def)
  let ?p0 = "fail_status clk (error args) (gp_peer gp)"
  from assms(3) have res: "oc = fst (fail cfg w clk args gp)"
    "gp' = snd (fail cfg w clk args gp)" by simp_all
  show ?thesis
  proof (cases "fail_reputation cfg clk ?p0")
    case (Inl e)
    show ?thesis
      unfolding res fail_Threw_path [OF nf Inl] using assms(1,2)
      by (simp add: reputation_bounded_def snapshot_bounded_def)
  next
    case (Inr p1)
    have b1: "reputation p1 \<le> 100 \<and> snapshot_bounded p1 \<and> idle (status p1) = None"
      using Inr assms(1,2)
      by (auto simp: fail_reputation_Inr reputation_bounded_def snapshot_bounded_def)
    have nd: "\<not> (reputation p1 < 0 \<and> peer_id (gp_peer gp) \<notin> witnesses w)"
    proof
      assume "reputation p1 < 0 \<and> peer_id (gp_peer gp) \<notin> witnesses w"
      from fail_Deleted_path [OF nf Inr this] assms(3,4) show False by simp
    qed
    show ?thesis
      unfolding res fail_Updated_path [OF nf Inr nd] using b1
      by (simp add: reputation_bounded_def snapshot_bounded_def split: cursor_value.splits)
  qed
qed

lemma success_keeps_bounds:
  assumes "reputation_bounded (gp_peer gp)"
    and "0 < maxIdleGracePeriod cfg"
    and "idle_not_after (success_now_idle clk) (gp_peer gp)"
    and "success cfg w clk args peerCount gp = (oc, gp')" and "oc \<noteq> Deleted"
  shows "reputation_bounded (gp_peer gp') \<and> snapshot_bounded (gp_peer gp') \<and>
         idle_not_after (success_now_idle clk) (gp_peer gp') \<and>
         (oc = Updated \<longrightarrow> gp_calls gp' = gp_calls gp @ [PeersUpdate (gp_peer gp')])"
proof -
  have nd: "\<not> capacity_drop w peerCount (gp_peer gp)"
    using assms(4,5) by (auto simp: success_dropped)
  have tpp: "0 < Math_ceil_div (maxIdleGracePeriod cfg) 100"
    by (rule Math_ceil_div_100_pos [OF assms(2)])
  let ?p1 = "success_status clk (cursor_or_null (success_cursor args)) (gp_peer gp)"
  from assms(4) have res: "oc = fst (success cfg w clk args peerCount gp)"
    "gp' = snd (success cfg w clk args peerCount gp)" by simp_all
  note defs = reputation_bounded_def snapshot_bounded_def idle_not_after_def
  show ?thesis
  proof (cases rule: idle_branches [where args=args and p="gp_peer gp" and w=w])
    case merge
    show ?thesis
      unfolding res success_merge [OF nd merge] using assms(1) by (simp add: defs)
  next
    case start
    show ?thesis
      unfolding res success_idle_start [OF nd start] using assms(1) by (simp add: defs)
  next
    case (same i)
    show ?thesis
      unfolding res success_idle_same_height [OF nd same] using assms(1) by (simp add: defs)
  next
    case (penalty i)
    define p' where "p' = idle_penalty cfg w clk i ?p1"
    have k: "\<not> (reputation p' < 0 \<and> peer_id (gp_peer gp) \<notin> witnesses w)"
    proof
      assume "reputation p' < 0 \<and> peer_id (gp_peer gp) \<notin> witnesses w"
      from success_idle_penalty_Deleted [OF nd penalty p'_def this] assms(4,5)
      show False by simp
    qed
    from assms(3) penalty(2) have le: "0 \<le> success_now_idle clk - idle_time i"
      by (simp add: idle_not_after_def)
    have pts: "0 \<le> Math_floor_div (success_now_idle clk - idle_time i)
                   (Math_ceil_div (maxIdleGracePeriod cfg) 100)"
      by (rule Math_floor_div_nonneg [OF tpp le])
    have adv: "idle_time i +
        Math_floor_div (success_now_idle clk - idle_time i)
          (Math_ceil_div (maxIdleGracePeriod cfg) 100) *
        Math_ceil_div (maxIdleGracePeriod cfg) 100 \<le> success_now_idle clk"
      using Math_floor_div_mult_le [OF tpp, of "success_now_idle clk - idle_time i"]
      by linarith
    have "reputation p' \<le> 100"
      using assms(1) pts unfolding p'_def by (simp add: defs)
    moreover have "idle_not_after (success_now_idle clk) p'"
      using adv unfolding p'_def by (simp add: defs)
    moreover have "snapshot_bounded p'"
      unfolding p'_def by (simp add: defs)
    ultimately have "reputation p' \<le> 100 \<and> idle_not_after (success_now_idle clk) p' \<and>
      snapshot_bounded p'" by simp
    then show ?thesis
      unfolding res success_idle_penalty_Updated [OF nd penalty p'_def k]
      by (simp add: defs)
  qed
qed

subsection \<open>Counting in a collection\<close>

lemma count_peers_append:
  "count_peers m (xs @ ys) = count_peers m xs + count_peers m ys"
  by (simp add: count_peers_def)

lemma count_zero_peers: "count_peers 0 (zero_peers n) = int n"
  by (simp add: count_peers_def zero_peers_def filter_map o_def)

lemma zero_peers_other:
  "map (\<lambda>q. if peer_id q = ''peer-a'' then p else q) (zero_peers n) = zero_peers n"
  by (simp add: zero_peers_def)

lemma distinct_full_collection: "distinct (map peer_id full_collection)"
  by (auto simp: full_collection_def last_point_peer_def zero_peers_def idle_peer_def
        example_peer_def distinct_map inj_on_def o_def replicate_eq_replicate)

subsection \<open>Evaluating the handlers on the concrete inputs\<close>

lemmas example_defs =
  example_config_def example_status_def example_peer_def failing_peer_def idle_peer_def
  example_worker_def example_fail_clock_def example_success_clock_def network_failure_def
  protocol_violation_def no_events_def new_events_def GossipPeer_def

lemmas handler_defs =
  fail_def fail_status_def fail_reputation_def negative_reputation_def fail_backoff_def
  fail_set_cursor_def commit_def peers_update_def delete_def success_def success_status_def
  success_reputation_def idle_penalty_def cursor_or_null_def Math_floor_div_def
  Math_ceil_div_def Let_def

lemma fail_example_peer:
  "fst (fail example_config example_worker example_fail_clock network_failure
          (GossipPeer example_peer)) = Updated"
  by (simp add: handler_defs example_defs)

lemma success_example_peer:
  "fst (success example_config example_worker example_success_clock new_events n
          (GossipPeer example_peer)) = Updated"
  by (simp add: handler_defs example_defs)

lemma success_idle_peer:
  "fst (success example_config example_worker example_success_clock no_events n
          (GossipPeer idle_peer)) = Updated"
  by (simp add: handler_defs example_defs)


section \<open>Deleting a peer\<close>



section \<open>Failures\<close>

text \<open>
  C7. A call to \<^verbatim>\<open>fail\<close> with \<open>fatal = true\<close> deletes the peer at once and
  returns: the outcome is that of \<^verbatim>\<open>delete\<close> on the instance as it stood, so the
  peer record is the one the call found (no reputation, \<open>consecutiveFailures\<close>,
  backoff or cursor update), and the only call made is the \<^verbatim>\<open>_peers.delete\<close>
  of an instance not deleted before.
\<close>

theorem fail_fatal_deletes:
  assumes "fatal args"
  shows "fst (fail cfg w clk args gp) = Deleted \<and>
         snd (fail cfg w clk args gp) = delete gp \<and>
         isDeleted (snd (fail cfg w clk args gp)) \<and>
         gp_peer (snd (fail cfg w clk args gp)) = gp_peer gp \<and>
         gp_calls (snd (fail cfg w clk args gp)) =
           (if gp_deleted gp then gp_calls gp else gp_calls gp @ [PeersDelete])"
  using assms by (simp add: fail_def isDeleted_def)

text \<open>A protocol violation reported for the example peer.\<close>

theorem fail_fatal_deletes_witness:
  "fatal protocol_violation \<and>
   fail example_config example_worker example_fail_clock protocol_violation
     (GossipPeer example_peer) =
   (Deleted, \<lparr>gp_peer = example_peer, gp_deleted = True, gp_calls = [PeersDelete]\<rparr>)"
proof -
  have h: "fatal protocol_violation" by (simp add: protocol_violation_def)
  from fail_fatal_deletes [OF h, of example_config example_worker example_fail_clock
      "GossipPeer example_peer"]
  show ?thesis
    using h by (simp add: prod_eq_iff delete_def GossipPeer_def)
qed

text \<open>
  C9. After a non-fatal call to \<^verbatim>\<open>fail\<close> that does not delete the peer (the call
  ends by storing the record: outcome \<open>Updated\<close>), \<open>backoffUntil\<close> is the
  clock reading taken for it plus \<open>min(maxFailure, consecutiveFailures * minFailure)\<close>,
  where \<open>consecutiveFailures\<close> is the value after this failure's increment.
\<close>

theorem fail_backoffUntil:
  assumes "\<not> fatal args"
    and "fail cfg w clk args gp = (Updated, gp')"
  shows "consecutiveFailures (status (gp_peer gp')) =
           consecutiveFailures (status (gp_peer gp)) + 1 \<and>
         backoffUntil (status (gp_peer gp')) =
           fail_now_backoff clk +
           min (maxFailure cfg) (consecutiveFailures (status (gp_peer gp')) * minFailure cfg)"
  using assms
  by (auto simp: fail_cases fail_reputation_Inr negative_reputation_Some
           split: cursor_value.splits)

text \<open>The first failure of the example peer: the backoff is \<open>1 * 5000\<close> milliseconds.\<close>

theorem fail_backoffUntil_witness:
  "\<not> fatal network_failure \<and>
   fst (fail example_config example_worker example_fail_clock network_failure
          (GossipPeer example_peer)) = Updated \<and>
   consecutiveFailures (status (gp_peer (snd
     (fail example_config example_worker example_fail_clock network_failure
        (GossipPeer example_peer))))) = 1 \<and>
   backoffUntil (status (gp_peer (snd
     (fail example_config example_worker example_fail_clock network_failure
        (GossipPeer example_peer))))) = 7205002"
proof -
  have h: "\<not> fatal network_failure" by (simp add: network_failure_def)
  have u: "fail example_config example_worker example_fail_clock network_failure
             (GossipPeer example_peer) =
           (Updated, snd (fail example_config example_worker example_fail_clock network_failure
             (GossipPeer example_peer)))"
    using fail_example_peer by (simp add: prod_eq_iff)
  from fail_backoffUntil [OF h u] show ?thesis
    using h fail_example_peer
    by (simp add: example_defs)
qed

text \<open>
  C6, as the code has it. In every call to \<^verbatim>\<open>fail\<close> \<open>status.cursor\<close> keeps its
  prior value. \<open>status.requiredBlockHeight\<close> becomes the supplied cursor's
  \<open>requiredBlockHeight\<close> exactly when that cursor is truthy and the call is one
  that ends by storing the record (non-fatal, peer not deleted); in every other call
  it keeps its prior value as well.
\<close>

theorem fail_cursor_frame:
  assumes "fail cfg w clk args gp = (oc, gp')"
  shows "cursor (status (gp_peer gp')) = cursor (status (gp_peer gp)) \<and>
         requiredBlockHeight (status (gp_peer gp')) =
           (case fail_cursor args of
              Cursor co \<Rightarrow>
                if oc = Updated then cursor_requiredBlockHeight co
                else requiredBlockHeight (status (gp_peer gp))
            | _ \<Rightarrow> requiredBlockHeight (status (gp_peer gp)))"
  using assms
  by (auto simp: fail_cases fail_reputation_Inr fail_reputation_Inl negative_reputation_Some
        negative_reputation_None split: cursor_value.splits)

text \<open>A non-fatal failure of the example peer, reported with a cursor of height \<open>9\<close>.\<close>

theorem fail_cursor_frame_witness:
  "fst (fail example_config example_worker example_fail_clock
          (network_failure\<lparr>fail_cursor := Cursor \<lparr>cursor_requiredBlockHeight = 9\<rparr>\<rparr>)
          (GossipPeer example_peer)) = Updated \<and>
   cursor (status (gp_peer (snd (fail example_config example_worker example_fail_clock
          (network_failure\<lparr>fail_cursor := Cursor \<lparr>cursor_requiredBlockHeight = 9\<rparr>\<rparr>)
          (GossipPeer example_peer))))) = Null \<and>
   requiredBlockHeight (status (gp_peer (snd (fail example_config example_worker
          example_fail_clock
          (network_failure\<lparr>fail_cursor := Cursor \<lparr>cursor_requiredBlockHeight = 9\<rparr>\<rparr>)
          (GossipPeer example_peer))))) = 9"
proof -
  let ?args = "network_failure\<lparr>fail_cursor := Cursor \<lparr>cursor_requiredBlockHeight = 9\<rparr>\<rparr>"
  have u: "fst (fail example_config example_worker example_fail_clock ?args
             (GossipPeer example_peer)) = Updated"
    by (simp add: handler_defs example_defs)
  from fail_cursor_frame [OF surjective_pairing, of example_config example_worker
      example_fail_clock ?args "GossipPeer example_peer"]
  show ?thesis
    using u by (simp add: example_defs)
qed

text \<open>
  A fatal call that carries a truthy cursor of height \<open>9\<close>: the peer is deleted
  and \<open>requiredBlockHeight\<close> stays \<open>0\<close>.
\<close>

theorem fail_fatal_cursor_counterexample:
  "fail_cursor protocol_violation = Cursor \<lparr>cursor_requiredBlockHeight = 9\<rparr> \<and>
   requiredBlockHeight (status example_peer) = 0 \<and>
   fst (fail example_config example_worker example_fail_clock protocol_violation
          (GossipPeer example_peer)) = Deleted \<and>
   requiredBlockHeight (status (gp_peer (snd
     (fail example_config example_worker example_fail_clock protocol_violation
        (GossipPeer example_peer))))) = 0"
  by (simp add: handler_defs example_defs)

text \<open>
  C1, as the code has it. A non-fatal call to \<^verbatim>\<open>fail\<close> increments
  \<open>consecutiveFailures\<close>. If it thereby becomes \<open>1\<close>, the peer's reputation and
  the failure time (the reading stored as \<open>lastPullAt\<close>) are snapshotted as
  \<open>firstFailure\<close> and the reputation update gives \<open>r = reputation - 1\<close>; on a
  subsequent consecutive failure it gives
  \<open>r = min(start - 1, start - floor(elapsed / maxFailureGracePeriod) * 100)\<close>, with
  \<open>start\<close> the snapshotted reputation and \<open>elapsed\<close> the time since the first
  failure. The record keeps \<open>r\<close>, except that a current witness whose \<open>r\<close> is
  negative ends with reputation \<open>0\<close>.
\<close>

theorem fail_reputation_update:
  assumes "\<not> fatal args"
    and "0 < maxFailureGracePeriod cfg"
    and "fail cfg w clk args gp = (oc, gp')"
  shows "consecutiveFailures (status (gp_peer gp')) =
           consecutiveFailures (status (gp_peer gp)) + 1 \<and>
         lastPullAt (status (gp_peer gp')) = fail_now_pull clk \<and>
         (consecutiveFailures (status (gp_peer gp)) + 1 = 1 \<longrightarrow>
            firstFailure (status (gp_peer gp')) =
              Some \<lparr>ff_reputation = reputation (gp_peer gp), ff_time = fail_now_pull clk\<rparr> \<and>
            (let r = reputation (gp_peer gp) - 1
             in reputation (gp_peer gp') =
                  (if r < 0 \<and> peer_id (gp_peer gp) \<in> witnesses w then 0 else r))) \<and>
         (consecutiveFailures (status (gp_peer gp)) + 1 \<noteq> 1 \<longrightarrow>
            (\<forall>ff. firstFailure (status (gp_peer gp)) = Some ff \<longrightarrow>
               firstFailure (status (gp_peer gp')) = Some ff \<and>
               (let start = ff_reputation ff;
                    elapsed = fail_now_total clk - ff_time ff;
                    r = min (start - 1)
                          (start - \<lfloor>real_of_int elapsed /
                                      real_of_int (maxFailureGracePeriod cfg)\<rfloor> * 100)
                in reputation (gp_peer gp') =
                     (if r < 0 \<and> peer_id (gp_peer gp) \<in> witnesses w then 0 else r))))"
proof -
  have q: "Math_floor_div a (maxFailureGracePeriod cfg) =
           \<lfloor>real_of_int a / real_of_int (maxFailureGracePeriod cfg)\<rfloor>" for a
    using assms(2) by (simp add: Math_floor_div_real)
  show ?thesis
    using assms(1,3)
    by (auto simp: fail_cases fail_reputation_Inr fail_reputation_Inl negative_reputation_Some
          negative_reputation_None q Let_def split: cursor_value.splits)
qed

text \<open>
  The first failure of the example peer (reputation \<open>50\<close> becomes \<open>49\<close>), and the
  third failure of a peer whose first failure was two grace periods ago (\<open>200\<close>
  points: the update gives \<open>-150\<close>).
\<close>

theorem fail_reputation_update_witness:
  "\<not> fatal network_failure \<and> 0 < maxFailureGracePeriod example_config \<and>
   consecutiveFailures (status (gp_peer (snd
     (fail example_config example_worker example_fail_clock network_failure
        (GossipPeer example_peer))))) = 1 \<and>
   firstFailure (status (gp_peer (snd
     (fail example_config example_worker example_fail_clock network_failure
        (GossipPeer example_peer))))) = Some \<lparr>ff_reputation = 50, ff_time = 7200000\<rparr> \<and>
   reputation (gp_peer (snd
     (fail example_config example_worker example_fail_clock network_failure
        (GossipPeer example_peer)))) = 49 \<and>
   consecutiveFailures (status (gp_peer (snd
     (fail example_config example_worker example_fail_clock network_failure
        (GossipPeer failing_peer))))) = 3 \<and>
   reputation (gp_peer (snd
     (fail example_config example_worker example_fail_clock network_failure
        (GossipPeer failing_peer)))) = - 150"
proof -
  have h1: "\<not> fatal network_failure" by (simp add: network_failure_def)
  have h2: "0 < maxFailureGracePeriod example_config" by (simp add: example_config_def)
  note a = fail_reputation_update [OF h1 h2 surjective_pairing, of example_worker
      example_fail_clock "GossipPeer example_peer"]
  note b = fail_reputation_update [OF h1 h2 surjective_pairing, of example_worker
      example_fail_clock "GossipPeer failing_peer"]
  show ?thesis
    using h1 h2 a b by (simp add: example_defs)
qed

text \<open>
  The first failure of a current witness of reputation \<open>0\<close>: the record is stored
  with reputation \<open>0\<close>, not \<open>-1\<close>.
\<close>

theorem fail_reputation_decrement_counterexample:
  "\<not> fatal network_failure \<and>
   peer_id (example_peer\<lparr>peer_id := ''witness-1'', reputation := 0\<rparr>) \<in> witnesses example_worker \<and>
   consecutiveFailures (status (example_peer\<lparr>peer_id := ''witness-1'', reputation := 0\<rparr>)) + 1 = 1 \<and>
   reputation (example_peer\<lparr>peer_id := ''witness-1'', reputation := 0\<rparr>) = 0 \<and>
   fst (fail example_config example_worker example_fail_clock network_failure
         (GossipPeer (example_peer\<lparr>peer_id := ''witness-1'', reputation := 0\<rparr>))) = Updated \<and>
   reputation (gp_peer (snd (fail example_config example_worker example_fail_clock
         network_failure
         (GossipPeer (example_peer\<lparr>peer_id := ''witness-1'', reputation := 0\<rparr>))))) = 0"
  by (simp add: handler_defs example_defs)

text \<open>
  C5. When the reputation update of a failure (the record \<open>pf\<close> it produces), or
  the idle penalty of a success (the record \<open>ps\<close>), makes the reputation negative:
  a peer that is not a current witness is deleted, the handler returning at once
  with the record as it stands: the instance is flagged deleted and, unless it was
  deleted before, the one call it makes is \<^verbatim>\<open>_peers.delete\<close>, with no
  \<^verbatim>\<open>_peers.update\<close>; a current witness has its reputation set to \<open>0\<close>
  and is retained, the record being stored by \<^verbatim>\<open>_peers.update\<close>.
\<close>

theorem negative_reputation_handling:
  "(\<not> fatal fargs \<longrightarrow>
    fail_reputation cfg clk (fail_status clk (error fargs) (gp_peer gp)) = Inr pf \<longrightarrow>
    reputation pf < 0 \<longrightarrow>
      (peer_id (gp_peer gp) \<notin> witnesses w \<longrightarrow>
         fail cfg w clk fargs gp = (Deleted, delete (gp\<lparr>gp_peer := pf\<rparr>)) \<and>
         isDeleted (snd (fail cfg w clk fargs gp)) \<and>
         gp_peer (snd (fail cfg w clk fargs gp)) = pf \<and>
         gp_calls (snd (fail cfg w clk fargs gp)) =
           (if gp_deleted gp then gp_calls gp else gp_calls gp @ [PeersDelete])) \<and>
      (peer_id (gp_peer gp) \<in> witnesses w \<longrightarrow>
         fst (fail cfg w clk fargs gp) = Updated \<and>
         reputation (gp_peer (snd (fail cfg w clk fargs gp))) = 0 \<and>
         gp_deleted (snd (fail cfg w clk fargs gp)) = gp_deleted gp \<and>
         gp_calls (snd (fail cfg w clk fargs gp)) =
           gp_calls gp @ [PeersUpdate (gp_peer (snd (fail cfg w clk fargs gp)))]))
   \<and>
   (\<not> capacity_drop w peerCount (gp_peer gp) \<longrightarrow>
    \<not> mergeEventsReceived sargs \<longrightarrow>
    idle (status (gp_peer gp)) = Some i \<longrightarrow>
    idle_localBlockHeight i \<noteq> blockHeight w \<longrightarrow>
    ps = idle_penalty cfg w sclk i
           (success_status sclk (cursor_or_null (success_cursor sargs)) (gp_peer gp)) \<longrightarrow>
    reputation ps < 0 \<longrightarrow>
      (peer_id (gp_peer gp) \<notin> witnesses w \<longrightarrow>
         success cfg w sclk sargs peerCount gp = (Deleted, delete (gp\<lparr>gp_peer := ps\<rparr>)) \<and>
         isDeleted (snd (success cfg w sclk sargs peerCount gp)) \<and>
         gp_peer (snd (success cfg w sclk sargs peerCount gp)) = ps \<and>
         gp_calls (snd (success cfg w sclk sargs peerCount gp)) =
           (if gp_deleted gp then gp_calls gp else gp_calls gp @ [PeersDelete])) \<and>
      (peer_id (gp_peer gp) \<in> witnesses w \<longrightarrow>
         fst (success cfg w sclk sargs peerCount gp) = Updated \<and>
         reputation (gp_peer (snd (success cfg w sclk sargs peerCount gp))) = 0 \<and>
         gp_deleted (snd (success cfg w sclk sargs peerCount gp)) = gp_deleted gp \<and>
         gp_calls (snd (success cfg w sclk sargs peerCount gp)) =
           gp_calls gp @ [PeersUpdate (gp_peer (snd (success cfg w sclk sargs peerCount gp)))]))"
proof -
  have F1: "fail cfg w clk fargs gp = (Deleted, delete (gp\<lparr>gp_peer := pf\<rparr>)) \<and>
            isDeleted (snd (fail cfg w clk fargs gp)) \<and>
            gp_peer (snd (fail cfg w clk fargs gp)) = pf \<and>
            gp_calls (snd (fail cfg w clk fargs gp)) =
              (if gp_deleted gp then gp_calls gp else gp_calls gp @ [PeersDelete])"
    if "\<not> fatal fargs"
      "fail_reputation cfg clk (fail_status clk (error fargs) (gp_peer gp)) = Inr pf"
      "reputation pf < 0" "peer_id (gp_peer gp) \<notin> witnesses w"
    using fail_Deleted_path [OF that(1,2), of w] that(3,4) by (simp add: isDeleted_def)
  have F2: "fst (fail cfg w clk fargs gp) = Updated \<and>
         reputation (gp_peer (snd (fail cfg w clk fargs gp))) = 0 \<and>
         gp_deleted (snd (fail cfg w clk fargs gp)) = gp_deleted gp \<and>
         gp_calls (snd (fail cfg w clk fargs gp)) =
           gp_calls gp @ [PeersUpdate (gp_peer (snd (fail cfg w clk fargs gp)))]"
    if "\<not> fatal fargs"
      "fail_reputation cfg clk (fail_status clk (error fargs) (gp_peer gp)) = Inr pf"
      "reputation pf < 0" "peer_id (gp_peer gp) \<in> witnesses w"
    using fail_Updated_path [OF that(1,2), of w] that(3,4) by simp
  have S1: "success cfg w sclk sargs peerCount gp = (Deleted, delete (gp\<lparr>gp_peer := ps\<rparr>)) \<and>
         isDeleted (snd (success cfg w sclk sargs peerCount gp)) \<and>
         gp_peer (snd (success cfg w sclk sargs peerCount gp)) = ps \<and>
         gp_calls (snd (success cfg w sclk sargs peerCount gp)) =
           (if gp_deleted gp then gp_calls gp else gp_calls gp @ [PeersDelete])"
    if "\<not> capacity_drop w peerCount (gp_peer gp)" "\<not> mergeEventsReceived sargs"
      "idle (status (gp_peer gp)) = Some i" "idle_localBlockHeight i \<noteq> blockHeight w"
      "ps = idle_penalty cfg w sclk i
           (success_status sclk (cursor_or_null (success_cursor sargs)) (gp_peer gp))"
      "reputation ps < 0" "peer_id (gp_peer gp) \<notin> witnesses w"
    using success_idle_penalty_Deleted [OF that(1-5)] that(6,7) by (simp add: isDeleted_def)
  have S2: "fst (success cfg w sclk sargs peerCount gp) = Updated \<and>
         reputation (gp_peer (snd (success cfg w sclk sargs peerCount gp))) = 0 \<and>
         gp_deleted (snd (success cfg w sclk sargs peerCount gp)) = gp_deleted gp \<and>
         gp_calls (snd (success cfg w sclk sargs peerCount gp)) =
           gp_calls gp @ [PeersUpdate (gp_peer (snd (success cfg w sclk sargs peerCount gp)))]"
    if "\<not> capacity_drop w peerCount (gp_peer gp)" "\<not> mergeEventsReceived sargs"
      "idle (status (gp_peer gp)) = Some i" "idle_localBlockHeight i \<noteq> blockHeight w"
      "ps = idle_penalty cfg w sclk i
           (success_status sclk (cursor_or_null (success_cursor sargs)) (gp_peer gp))"
      "reputation ps < 0" "peer_id (gp_peer gp) \<in> witnesses w"
    using success_idle_penalty_Updated [OF that(1-5)] that(6,7) by simp
  show ?thesis
    using F1 F2 S1 S2 by blast
qed


text \<open>
  The third failure of the failing peer gives \<open>-150\<close>: as it is, the peer is
  deleted by one \<^verbatim>\<open>_peers.delete\<close> call; as a current witness, it is stored
  with reputation \<open>0\<close>. An idle peer of reputation \<open>0\<close> loses one point: as
  it is, it is deleted by one \<^verbatim>\<open>_peers.delete\<close> call; as a current witness,
  it is stored with reputation \<open>0\<close>.
\<close>

theorem negative_reputation_handling_witness:
  "\<not> fatal network_failure \<and>
   fail_reputation example_config example_fail_clock
     (fail_status example_fail_clock (error network_failure) failing_peer) =
     Inr ((fail_status example_fail_clock (error network_failure) failing_peer)
            \<lparr>reputation := - 150\<rparr>) \<and>
   fst (fail example_config example_worker example_fail_clock network_failure
          (GossipPeer failing_peer)) = Deleted \<and>
   isDeleted (snd (fail example_config example_worker example_fail_clock network_failure
          (GossipPeer failing_peer))) \<and>
   gp_calls (snd (fail example_config example_worker example_fail_clock network_failure
          (GossipPeer failing_peer))) = [PeersDelete] \<and>
   fst (fail example_config example_worker example_fail_clock network_failure
          (GossipPeer (failing_peer\<lparr>peer_id := ''witness-1''\<rparr>))) = Updated \<and>
   reputation (gp_peer (snd (fail example_config example_worker example_fail_clock
          network_failure (GossipPeer (failing_peer\<lparr>peer_id := ''witness-1''\<rparr>))))) = 0 \<and>
   \<not> capacity_drop example_worker 0 (idle_peer\<lparr>reputation := 0\<rparr>) \<and>
   \<not> mergeEventsReceived no_events \<and>
   reputation (idle_penalty example_config example_worker example_success_clock
     \<lparr>idle_time = 7194002, idle_localBlockHeight = 6\<rparr>
     (success_status example_success_clock Null (idle_peer\<lparr>reputation := 0\<rparr>))) = - 1 \<and>
   fst (success example_config example_worker example_success_clock no_events 0
          (GossipPeer (idle_peer\<lparr>reputation := 0\<rparr>))) = Deleted \<and>
   isDeleted (snd (success example_config example_worker example_success_clock no_events 0
          (GossipPeer (idle_peer\<lparr>reputation := 0\<rparr>)))) \<and>
   gp_calls (snd (success example_config example_worker example_success_clock no_events 0
          (GossipPeer (idle_peer\<lparr>reputation := 0\<rparr>)))) = [PeersDelete] \<and>
   fst (success example_config example_worker example_success_clock no_events 0
          (GossipPeer (idle_peer\<lparr>peer_id := ''witness-1'', reputation := 0\<rparr>))) = Updated \<and>
   reputation (gp_peer (snd (success example_config example_worker example_success_clock
          no_events 0
          (GossipPeer (idle_peer\<lparr>peer_id := ''witness-1'', reputation := 0\<rparr>))))) = 0"
proof -
  let ?pf = "(fail_status example_fail_clock (error network_failure) failing_peer)
               \<lparr>reputation := - 150\<rparr>"
  let ?i = "\<lparr>idle_time = 7194002, idle_localBlockHeight = 6\<rparr>"
  let ?wf = "failing_peer\<lparr>peer_id := ''witness-1''\<rparr>"
  let ?z = "idle_peer\<lparr>reputation := 0\<rparr>"
  let ?wz = "idle_peer\<lparr>peer_id := ''witness-1'', reputation := 0\<rparr>"
  note ev = fail_reputation_def fail_status_def Math_floor_div_def Math_ceil_div_def
    capacity_drop_def cursor_or_null_def example_defs
  have nf: "\<not> fatal network_failure" by (simp add: ev)
  have f1: "fail_reputation example_config example_fail_clock
      (fail_status example_fail_clock (error network_failure) (gp_peer (GossipPeer failing_peer)))
      = Inr ?pf" by (simp add: ev)
  have f2: "fail_reputation example_config example_fail_clock
      (fail_status example_fail_clock (error network_failure) (gp_peer (GossipPeer ?wf)))
      = Inr (?pf\<lparr>peer_id := ''witness-1''\<rparr>)" by (simp add: ev)
  have neg: "reputation ?pf < 0" "reputation (?pf\<lparr>peer_id := ''witness-1''\<rparr>) < 0"
    by simp_all
  have nw: "peer_id (gp_peer (GossipPeer failing_peer)) \<notin> witnesses example_worker"
    "peer_id (gp_peer (GossipPeer ?z)) \<notin> witnesses example_worker" by (simp_all add: ev)
  have iw: "peer_id (gp_peer (GossipPeer ?wf)) \<in> witnesses example_worker"
    "peer_id (gp_peer (GossipPeer ?wz)) \<in> witnesses example_worker" by (simp_all add: ev)
  have nd: "\<not> capacity_drop example_worker 0 (gp_peer (GossipPeer ?z))"
    "\<not> capacity_drop example_worker 0 (gp_peer (GossipPeer ?wz))" by (simp_all add: ev)
  have nm: "\<not> mergeEventsReceived no_events" by (simp add: ev)
  have idl: "idle (status (gp_peer (GossipPeer ?z))) = Some ?i"
    "idle (status (gp_peer (GossipPeer ?wz))) = Some ?i" by (simp_all add: ev)
  have ch: "idle_localBlockHeight ?i \<noteq> blockHeight example_worker" by (simp add: ev)
  have pen: "reputation (idle_penalty example_config example_worker example_success_clock ?i
      (success_status example_success_clock (cursor_or_null (success_cursor no_events))
         (gp_peer (GossipPeer ?z)))) < 0"
    "reputation (idle_penalty example_config example_worker example_success_clock ?i
      (success_status example_success_clock (cursor_or_null (success_cursor no_events))
         (gp_peer (GossipPeer ?wz)))) < 0" by (simp_all add: ev)
  note r1 = negative_reputation_handling [THEN conjunct1, rule_format, OF nf f1 neg(1),
      THEN conjunct1, rule_format, OF nw(1)]
  note r2 = negative_reputation_handling [THEN conjunct1, rule_format, OF nf f2 neg(2),
      THEN conjunct2, rule_format, OF iw(1)]
  note r3 = negative_reputation_handling [THEN conjunct2, rule_format,
      OF nd(1) nm idl(1) ch refl pen(1), THEN conjunct1, rule_format, OF nw(2)]
  note r4 = negative_reputation_handling [THEN conjunct2, rule_format,
      OF nd(2) nm idl(2) ch refl pen(2), THEN conjunct2, rule_format, OF iw(2)]
  have e1: "fail_reputation example_config example_fail_clock
     (fail_status example_fail_clock (error network_failure) failing_peer) = Inr ?pf"
    using f1 by (simp add: GossipPeer_def)
  have e2: "\<not> capacity_drop example_worker 0 ?z"
    using nd(1) by (simp add: GossipPeer_def)
  have e3: "reputation (idle_penalty example_config example_worker example_success_clock
     ?i (success_status example_success_clock Null ?z)) = - 1"
    by (simp add: ev)
  from r1 have c1: "fst (fail example_config example_worker example_fail_clock network_failure
          (GossipPeer failing_peer)) = Deleted"
    "isDeleted (snd (fail example_config example_worker example_fail_clock network_failure
          (GossipPeer failing_peer)))"
    "gp_calls (snd (fail example_config example_worker example_fail_clock network_failure
          (GossipPeer failing_peer))) = [PeersDelete]"
    by (simp_all add: isDeleted_def GossipPeer_def)
  from r2 have c2: "fst (fail example_config example_worker example_fail_clock network_failure
          (GossipPeer ?wf)) = Updated"
    "reputation (gp_peer (snd (fail example_config example_worker example_fail_clock
          network_failure (GossipPeer ?wf)))) = 0" by simp_all
  from r3 have c3: "fst (success example_config example_worker example_success_clock no_events 0
          (GossipPeer ?z)) = Deleted"
    "isDeleted (snd (success example_config example_worker example_success_clock no_events 0
          (GossipPeer ?z)))"
    "gp_calls (snd (success example_config example_worker example_success_clock no_events 0
          (GossipPeer ?z))) = [PeersDelete]"
    by (simp_all add: isDeleted_def GossipPeer_def)
  from r4 have c4: "fst (success example_config example_worker example_success_clock no_events 0
          (GossipPeer ?wz)) = Updated"
    "reputation (gp_peer (snd (success example_config example_worker example_success_clock
          no_events 0 (GossipPeer ?wz)))) = 0" by simp_all
  show ?thesis
    using nf nm e1 e2 e3 c1 c2 c3 c4 by blast
qed



section \<open>Successes\<close>

text \<open>
  C8, as the code has it. A call to \<^verbatim>\<open>success\<close> that does not delete the peer
  (outcome \<open>Updated\<close>) resets \<open>consecutiveFailures\<close> to \<open>0\<close>, drops
  \<open>firstFailure\<close>, sets \<open>lastPullAt\<close> to the clock reading taken for it and
  \<open>lastPullResult\<close> to \<open>success\<close>, and stores the supplied cursor (\<open>null\<close>
  when none is supplied), updating \<open>requiredBlockHeight\<close> when the cursor is truthy.
  If merge events were received it sets the reputation to \<open>min(100, reputation + 1)\<close>
  and clears the idle record. \<open>backoffUntil\<close> is the clock reading taken for it,
  increased by \<open>min(minIdle * max(1, points), maxIdle)\<close> when the idle penalty
  applies (no merge events, an idle record, a block height other than the recorded
  one), and by nothing otherwise.
\<close>

theorem success_status_update:
  assumes "success cfg w clk args peerCount gp = (Updated, gp')"
    and "0 < maxIdleGracePeriod cfg"
  shows "consecutiveFailures (status (gp_peer gp')) = 0 \<and>
         firstFailure (status (gp_peer gp')) = None \<and>
         lastPullAt (status (gp_peer gp')) = success_now_pull clk \<and>
         lastPullResult (status (gp_peer gp')) = ''success'' \<and>
         cursor (status (gp_peer gp')) =
           (if success_cursor args = Undefined then Null else success_cursor args) \<and>
         requiredBlockHeight (status (gp_peer gp')) =
           (case success_cursor args of
              Cursor co \<Rightarrow> cursor_requiredBlockHeight co
            | _ \<Rightarrow> requiredBlockHeight (status (gp_peer gp))) \<and>
         (mergeEventsReceived args \<longrightarrow>
            reputation (gp_peer gp') = min 100 (reputation (gp_peer gp) + 1) \<and>
            idle (status (gp_peer gp')) = None) \<and>
         backoffUntil (status (gp_peer gp')) =
           success_now_backoff clk +
           (case idle (status (gp_peer gp)) of
              None \<Rightarrow> 0
            | Some i \<Rightarrow>
                if mergeEventsReceived args \<or> idle_localBlockHeight i = blockHeight w then 0
                else
                  let timePerPoint = \<lceil>real_of_int (maxIdleGracePeriod cfg) / 100\<rceil>;
                      points = \<lfloor>real_of_int (success_now_idle clk - idle_time i) /
                                 real_of_int timePerPoint\<rfloor>
                  in min (minIdle cfg * max 1 points) (maxIdle cfg))"
proof -
  have tpp: "Math_ceil_div (maxIdleGracePeriod cfg) 100 \<noteq> 0"
    using Math_ceil_div_100_pos [OF assms(2)] by simp
  have nd: "\<not> capacity_drop w peerCount (gp_peer gp)"
    using assms(1) by (auto simp: success_dropped)
  have c: "cursor_or_null c = (if c = Undefined then Null else c)" for c
    by (simp add: cursor_or_null_def)
  let ?p1 = "success_status clk (cursor_or_null (success_cursor args)) (gp_peer gp)"
  note to_Math = Let_def ceil_to_Math floor_to_Math [OF tpp]
  show ?thesis
  proof (cases rule: idle_branches [where args=args and p="gp_peer gp" and w=w])
    case merge
    from assms(1) have "gp' = snd (success cfg w clk args peerCount gp)" by simp
    then show ?thesis
      unfolding to_Math success_merge [OF nd merge] using merge
      by (simp add: c split: option.splits)
  next
    case start
    from assms(1) have "gp' = snd (success cfg w clk args peerCount gp)" by simp
    then show ?thesis
      unfolding to_Math success_idle_start [OF nd start] using start
      by (simp add: c)
  next
    case (same i)
    from assms(1) have "gp' = snd (success cfg w clk args peerCount gp)" by simp
    then show ?thesis
      unfolding to_Math success_idle_same_height [OF nd same] using same
      by (simp add: c)
  next
    case (penalty i)
    define p' where "p' = idle_penalty cfg w clk i ?p1"
    have k: "\<not> (reputation p' < 0 \<and> peer_id (gp_peer gp) \<notin> witnesses w)"
    proof
      assume "reputation p' < 0 \<and> peer_id (gp_peer gp) \<notin> witnesses w"
      from success_idle_penalty_Deleted [OF nd penalty p'_def this] assms(1)
      show False by simp
    qed
    from assms(1) have "gp' = snd (success cfg w clk args peerCount gp)" by simp
    then show ?thesis
      unfolding to_Math success_idle_penalty_Updated [OF nd penalty p'_def k] using penalty
      by (simp add: c p'_def)
  qed
qed

text \<open>
  The example peer delivers merge events and a cursor of height \<open>9\<close>; the idle peer
  delivers none while the block height has moved from \<open>6\<close> to \<open>7\<close>.
\<close>

theorem success_status_update_witness:
  "0 < maxIdleGracePeriod example_config \<and>
   fst (success example_config example_worker example_success_clock new_events 0
          (GossipPeer example_peer)) = Updated \<and>
   consecutiveFailures (status (gp_peer (snd (success example_config example_worker
     example_success_clock new_events 0 (GossipPeer example_peer))))) = 0 \<and>
   lastPullAt (status (gp_peer (snd (success example_config example_worker
     example_success_clock new_events 0 (GossipPeer example_peer))))) = 7200001 \<and>
   lastPullResult (status (gp_peer (snd (success example_config example_worker
     example_success_clock new_events 0 (GossipPeer example_peer))))) = ''success'' \<and>
   cursor (status (gp_peer (snd (success example_config example_worker
     example_success_clock new_events 0 (GossipPeer example_peer))))) =
     Cursor \<lparr>cursor_requiredBlockHeight = 9\<rparr> \<and>
   requiredBlockHeight (status (gp_peer (snd (success example_config example_worker
     example_success_clock new_events 0 (GossipPeer example_peer))))) = 9 \<and>
   reputation (gp_peer (snd (success example_config example_worker
     example_success_clock new_events 0 (GossipPeer example_peer)))) = 51 \<and>
   backoffUntil (status (gp_peer (snd (success example_config example_worker
     example_success_clock new_events 0 (GossipPeer example_peer))))) = 7200000 \<and>
   fst (success example_config example_worker example_success_clock no_events 0
          (GossipPeer idle_peer)) = Updated \<and>
   backoffUntil (status (gp_peer (snd (success example_config example_worker
     example_success_clock no_events 0 (GossipPeer idle_peer))))) = 7201000"
proof -
  have h: "0 < maxIdleGracePeriod example_config" by (simp add: example_config_def)
  have u1: "success example_config example_worker example_success_clock new_events 0
              (GossipPeer example_peer) =
            (Updated, snd (success example_config example_worker example_success_clock
              new_events 0 (GossipPeer example_peer)))"
    using success_example_peer [of 0] by (simp add: prod_eq_iff)
  have u2: "success example_config example_worker example_success_clock no_events 0
              (GossipPeer idle_peer) =
            (Updated, snd (success example_config example_worker example_success_clock
              no_events 0 (GossipPeer idle_peer)))"
    using success_idle_peer [of 0] by (simp add: prod_eq_iff)
  from success_status_update [OF u1 h] success_status_update [OF u2 h]
  show ?thesis
    using h success_example_peer [of 0] success_idle_peer [of 0]
    by (simp add: example_defs)
qed

text \<open>
  The idle peer again: the call stores the record, and \<open>backoffUntil\<close> is one
  second after the clock reading \<open>7200000\<close> taken for it.
\<close>

theorem success_backoff_counterexample:
  "fst (success example_config example_worker example_success_clock no_events 0
          (GossipPeer idle_peer)) = Updated \<and>
   success_now_backoff example_success_clock = 7200000 \<and>
   success_now_pull example_success_clock = 7200001 \<and>
   success_now_idle example_success_clock = 7200002 \<and>
   backoffUntil (status (gp_peer (snd (success example_config example_worker
     example_success_clock no_events 0 (GossipPeer idle_peer))))) = 7201000"
  by (simp add: handler_defs example_defs)

text \<open>
  C2, as the code has it. In a \<^verbatim>\<open>success\<close> with no merge events received that
  the capacity check does not drop: when no idle record exists one is created with the
  clock reading and the block height; when one exists and the block height is the
  recorded one, \<open>idle.time\<close> is set to the clock reading; in both cases the
  reputation is unchanged and \<open>backoffUntil\<close> is the reading taken for it. The idle
  penalty applies exactly when an idle record exists and the block height differs from
  the recorded one: with \<open>timePerPoint = ceil(maxIdleGracePeriod / 100)\<close> and
  \<open>points = floor((now - idle.time) / timePerPoint)\<close>, the reputation update gives
  \<open>r = reputation - points\<close>, \<open>idle.time\<close> advances by \<open>points * timePerPoint\<close>,
  \<open>idle.localBlockHeight\<close> is set to the block height, and \<open>backoffUntil\<close> is
  increased by \<open>min(minIdle * max(1, points), maxIdle)\<close>. The record keeps \<open>r\<close>,
  except that a current witness whose \<open>r\<close> is negative ends with reputation \<open>0\<close>;
  a peer that is not a witness is deleted exactly when \<open>r\<close> is negative.
\<close>

theorem success_idle_accounting:
  assumes "\<not> mergeEventsReceived args"
    and "\<not> capacity_drop w peerCount (gp_peer gp)"
    and "0 < maxIdleGracePeriod cfg"
    and "success cfg w clk args peerCount gp = (oc, gp')"
  shows "(idle (status (gp_peer gp)) = None \<longrightarrow>
            oc = Updated \<and>
            idle (status (gp_peer gp')) =
              Some \<lparr>idle_time = success_now_idle clk, idle_localBlockHeight = blockHeight w\<rparr> \<and>
            reputation (gp_peer gp') = reputation (gp_peer gp) \<and>
            backoffUntil (status (gp_peer gp')) = success_now_backoff clk) \<and>
         (\<forall>i. idle (status (gp_peer gp)) = Some i \<longrightarrow>
            (idle_localBlockHeight i = blockHeight w \<longrightarrow>
               oc = Updated \<and>
               idle (status (gp_peer gp')) =
                 Some \<lparr>idle_time = success_now_idle clk,
                       idle_localBlockHeight = idle_localBlockHeight i\<rparr> \<and>
               reputation (gp_peer gp') = reputation (gp_peer gp) \<and>
               backoffUntil (status (gp_peer gp')) = success_now_backoff clk) \<and>
            (idle_localBlockHeight i \<noteq> blockHeight w \<longrightarrow>
               (let timePerPoint = \<lceil>real_of_int (maxIdleGracePeriod cfg) / 100\<rceil>;
                    points = \<lfloor>real_of_int (success_now_idle clk - idle_time i) /
                               real_of_int timePerPoint\<rfloor>;
                    r = reputation (gp_peer gp) - points
                in reputation (gp_peer gp') =
                     (if r < 0 \<and> peer_id (gp_peer gp) \<in> witnesses w then 0 else r) \<and>
                   idle (status (gp_peer gp')) =
                     Some \<lparr>idle_time = idle_time i + points * timePerPoint,
                           idle_localBlockHeight = blockHeight w\<rparr> \<and>
                   backoffUntil (status (gp_peer gp')) =
                     success_now_backoff clk + min (minIdle cfg * max 1 points) (maxIdle cfg) \<and>
                   (oc = Deleted) = (r < 0 \<and> peer_id (gp_peer gp) \<notin> witnesses w) \<and>
                   (oc = Updated) = (\<not> (r < 0 \<and> peer_id (gp_peer gp) \<notin> witnesses w)))))"
proof -
  have tpp: "Math_ceil_div (maxIdleGracePeriod cfg) 100 \<noteq> 0"
    using Math_ceil_div_100_pos [OF assms(3)] by simp
  note to_Math = Let_def ceil_to_Math floor_to_Math [OF tpp]
  let ?p1 = "success_status clk (cursor_or_null (success_cursor args)) (gp_peer gp)"
  from assms(4) have res: "oc = fst (success cfg w clk args peerCount gp)"
    "gp' = snd (success cfg w clk args peerCount gp)" by simp_all
  show ?thesis
  proof (cases rule: idle_branches [where args=args and p="gp_peer gp" and w=w])
    case merge
    with assms(1) show ?thesis by simp
  next
    case start
    show ?thesis
      unfolding to_Math res success_idle_start [OF assms(2) start] using start by simp
  next
    case (same i)
    have "i\<lparr>idle_time := success_now_idle clk\<rparr> =
          \<lparr>idle_time = success_now_idle clk, idle_localBlockHeight = idle_localBlockHeight i\<rparr>"
      by simp
    then show ?thesis
      unfolding to_Math res success_idle_same_height [OF assms(2) same] using same by simp
  next
    case (penalty i)
    define p' where "p' = idle_penalty cfg w clk i ?p1"
    show ?thesis
    proof (cases "reputation p' < 0 \<and> peer_id (gp_peer gp) \<notin> witnesses w")
      case True
      then show ?thesis
        unfolding to_Math res success_idle_penalty_Deleted [OF assms(2) penalty p'_def True]
        using penalty by (simp add: p'_def)
    next
      case False
      then show ?thesis
        unfolding to_Math res success_idle_penalty_Updated [OF assms(2) penalty p'_def False]
        using penalty by (auto simp: p'_def)
    qed
  qed
qed

text \<open>
  The idle peer loses one point for \<open>6000\<close> milliseconds of idling; the example
  peer, which has no idle record, starts idling.
\<close>

theorem success_idle_accounting_witness:
  "\<not> mergeEventsReceived no_events \<and>
   \<not> capacity_drop example_worker 0 idle_peer \<and>
   \<not> capacity_drop example_worker 0 example_peer \<and>
   0 < maxIdleGracePeriod example_config \<and>
   fst (success example_config example_worker example_success_clock no_events 0
          (GossipPeer idle_peer)) = Updated \<and>
   reputation (gp_peer (snd (success example_config example_worker example_success_clock
     no_events 0 (GossipPeer idle_peer)))) = 49 \<and>
   idle (status (gp_peer (snd (success example_config example_worker example_success_clock
     no_events 0 (GossipPeer idle_peer))))) =
     Some \<lparr>idle_time = 7200002, idle_localBlockHeight = 7\<rparr> \<and>
   backoffUntil (status (gp_peer (snd (success example_config example_worker
     example_success_clock no_events 0 (GossipPeer idle_peer))))) = 7201000 \<and>
   fst (success example_config example_worker example_success_clock no_events 0
          (GossipPeer example_peer)) = Updated \<and>
   reputation (gp_peer (snd (success example_config example_worker example_success_clock
     no_events 0 (GossipPeer example_peer)))) = 50 \<and>
   idle (status (gp_peer (snd (success example_config example_worker example_success_clock
     no_events 0 (GossipPeer example_peer))))) =
     Some \<lparr>idle_time = 7200002, idle_localBlockHeight = 7\<rparr> \<and>
   backoffUntil (status (gp_peer (snd (success example_config example_worker
     example_success_clock no_events 0 (GossipPeer example_peer))))) = 7200000"
proof -
  have nm: "\<not> mergeEventsReceived no_events" by (simp add: no_events_def)
  have nd: "\<not> capacity_drop example_worker 0 (gp_peer (GossipPeer idle_peer))"
    "\<not> capacity_drop example_worker 0 (gp_peer (GossipPeer example_peer))"
    by (simp_all add: capacity_drop_def)
  have h: "0 < maxIdleGracePeriod example_config" by (simp add: example_config_def)
  note a = success_idle_accounting [OF nm nd(1) h surjective_pairing,
      of example_success_clock]
  note b = success_idle_accounting [OF nm nd(2) h surjective_pairing,
      of example_success_clock]
  show ?thesis
    using nm h a b by (simp add: capacity_drop_def example_defs)
qed

text \<open>
  Two calls with no merge events received. A peer of reputation \<open>0\<close> that is not a
  witness, with no idle record, while the collection counts \<open>100\<close>: the peer is
  deleted and no idle record is created. A current witness of reputation \<open>0\<close> that
  has idled for one point: the record is stored with reputation \<open>0\<close>, not \<open>-1\<close>.
\<close>

theorem success_idle_counterexample:
  "\<not> mergeEventsReceived no_events \<and>
   idle (status (example_peer\<lparr>reputation := 0\<rparr>)) = None \<and>
   fst (success example_config example_worker example_success_clock no_events 100
          (GossipPeer (example_peer\<lparr>reputation := 0\<rparr>))) = Deleted \<and>
   idle (status (gp_peer (snd (success example_config example_worker example_success_clock
          no_events 100 (GossipPeer (example_peer\<lparr>reputation := 0\<rparr>)))))) = None \<and>
   idle (status (idle_peer\<lparr>peer_id := ''witness-1'', reputation := 0\<rparr>)) =
     Some \<lparr>idle_time = 7194002, idle_localBlockHeight = 6\<rparr> \<and>
   blockHeight example_worker = 7 \<and>
   \<lfloor>real_of_int (success_now_idle example_success_clock - 7194002) /
     real_of_int \<lceil>real_of_int (maxIdleGracePeriod example_config) / 100\<rceil>\<rfloor> = 1 \<and>
   fst (success example_config example_worker example_success_clock no_events 0
          (GossipPeer (idle_peer\<lparr>peer_id := ''witness-1'', reputation := 0\<rparr>))) = Updated \<and>
   reputation (gp_peer (snd (success example_config example_worker example_success_clock
          no_events 0
          (GossipPeer (idle_peer\<lparr>peer_id := ''witness-1'', reputation := 0\<rparr>))))) = 0"
  by (simp add: handler_defs example_defs)

text \<open>
  C4, as the code has it. On a successful gossip with a peer that is not a witness
  and whose reputation is exactly \<open>0\<close>, if the count of stored peers with reputation
  at most \<open>0\<close> is at least \<open>100\<close>, the peer is deleted before any status or
  reputation update: the outcome is that of \<^verbatim>\<open>delete\<close> on the instance as it
  stood. So such a peer is kept by the handler only if the count it read was below
  \<open>100\<close>. The count itself is not bounded by the handler.
\<close>

theorem success_capacity_drop:
  "(capacity_drop w peerCount (gp_peer gp) \<longrightarrow>
      success cfg w clk args peerCount gp = (Deleted, delete gp) \<and>
      gp_peer (snd (success cfg w clk args peerCount gp)) = gp_peer gp \<and>
      isDeleted (snd (success cfg w clk args peerCount gp)) \<and>
      gp_calls (snd (success cfg w clk args peerCount gp)) =
        (if gp_deleted gp then gp_calls gp else gp_calls gp @ [PeersDelete])) \<and>
   (peer_id (gp_peer gp) \<notin> witnesses w \<and> reputation (gp_peer gp) = 0 \<and>
      fst (success cfg w clk args peerCount gp) = Updated \<longrightarrow> peerCount < 100)"
proof (intro conjI impI)
  assume "capacity_drop w peerCount (gp_peer gp)"
  then have s: "success cfg w clk args peerCount gp = (Deleted, delete gp)"
    by (rule success_dropped)
  show "success cfg w clk args peerCount gp = (Deleted, delete gp)" by (rule s)
  show "gp_peer (snd (success cfg w clk args peerCount gp)) = gp_peer gp" by (simp add: s)
  show "isDeleted (snd (success cfg w clk args peerCount gp))" by (simp add: s isDeleted_def)
  show "gp_calls (snd (success cfg w clk args peerCount gp)) =
        (if gp_deleted gp then gp_calls gp else gp_calls gp @ [PeersDelete])" by (simp add: s)
next
  assume a: "peer_id (gp_peer gp) \<notin> witnesses w \<and> reputation (gp_peer gp) = 0 \<and>
      fst (success cfg w clk args peerCount gp) = Updated"
  show "peerCount < 100"
  proof (rule ccontr)
    assume "\<not> peerCount < 100"
    with a have "capacity_drop w peerCount (gp_peer gp)" by (simp add: capacity_drop_def)
    from success_dropped [OF this, of cfg clk args] a show False by simp
  qed
qed

text \<open>
  A peer of reputation \<open>0\<close> that is not a witness delivers merge events: it is
  dropped when the collection counts \<open>100\<close>, and stored when it counts \<open>99\<close>.
\<close>

theorem success_capacity_drop_witness:
  "capacity_drop example_worker 100 (example_peer\<lparr>reputation := 0\<rparr>) \<and>
   success example_config example_worker example_success_clock new_events 100
     (GossipPeer (example_peer\<lparr>reputation := 0\<rparr>)) =
     (Deleted, \<lparr>gp_peer = example_peer\<lparr>reputation := 0\<rparr>, gp_deleted = True,
                gp_calls = [PeersDelete]\<rparr>) \<and>
   peer_id (example_peer\<lparr>reputation := 0\<rparr>) \<notin> witnesses example_worker \<and>
   fst (success example_config example_worker example_success_clock new_events 99
     (GossipPeer (example_peer\<lparr>reputation := 0\<rparr>))) = Updated \<and>
   (99::int) < 100"
proof -
  let ?z = "example_peer\<lparr>reputation := 0\<rparr>"
  have d: "capacity_drop example_worker 100 (gp_peer (GossipPeer ?z))"
    by (simp add: capacity_drop_def example_defs)
  have k: "peer_id (gp_peer (GossipPeer ?z)) \<notin> witnesses example_worker \<and>
           reputation (gp_peer (GossipPeer ?z)) = 0 \<and>
           fst (success example_config example_worker example_success_clock new_events 99
                  (GossipPeer ?z)) = Updated"
    by (simp add: handler_defs example_defs)
  note a = success_capacity_drop [THEN conjunct1, rule_format, OF d,
      of example_config example_success_clock new_events]
  note b = success_capacity_drop [THEN conjunct2, rule_format, OF k]
  have "success example_config example_worker example_success_clock new_events 100
     (GossipPeer ?z) =
     (Deleted, \<lparr>gp_peer = ?z, gp_deleted = True, gp_calls = [PeersDelete]\<rparr>)"
    using a by (simp add: delete_def GossipPeer_def)
  moreover have "capacity_drop example_worker 100 ?z"
    using d by (simp add: GossipPeer_def)
  moreover have "peer_id ?z \<notin> witnesses example_worker"
    using k by (simp add: GossipPeer_def)
  ultimately show ?thesis
    using b k by simp
qed

text \<open>
  A collection of \<open>100\<close> peers of reputation \<open>0\<close> and one idle peer of
  reputation \<open>1\<close>, with distinct ids: the count is \<open>100\<close>. The idle peer gossips
  with success and no merge events, loses one point, and is stored with reputation
  \<open>0\<close>: the count is \<open>101\<close> after the handler's commit.
\<close>

theorem success_count_counterexample:
  "distinct (map peer_id full_collection) \<and>
   count_peers 0 full_collection = 100 \<and>
   fst (success_commit example_config example_worker example_success_clock no_events
          full_collection (GossipPeer last_point_peer)) = Updated \<and>
   count_peers 0
     (snd (snd (success_commit example_config example_worker example_success_clock no_events
          full_collection (GossipPeer last_point_peer)))) = 101"
proof -
  let ?p' = "idle_peer
              \<lparr>reputation := 0, sequence := 1,
               status := example_status
                 \<lparr>backoffUntil := 7201000, lastPullAt := 7200001, lastPullResult := ''success'',
                  idle := Some \<lparr>idle_time = 7200002, idle_localBlockHeight = 7\<rparr>\<rparr>\<rparr>"
  have c0: "count_peers 0 full_collection = 100"
    unfolding full_collection_def count_peers_append count_zero_peers
    by (simp add: count_peers_def last_point_peer_def)
  have s: "success example_config example_worker example_success_clock no_events 100
             (GossipPeer last_point_peer) =
           (Updated, \<lparr>gp_peer = ?p', gp_deleted = False, gp_calls = [PeersUpdate ?p']\<rparr>)"
    by (simp add: handler_defs last_point_peer_def example_defs)
  have id: "peer_id ?p' = ''peer-a''" "peer_id last_point_peer = ''peer-a''"
    by (simp_all add: last_point_peer_def idle_peer_def example_peer_def)
  have one: "count_peers 0 [?p'] = 1"
    by (simp add: count_peers_def)
  have st: "apply_call ''peer-a'' (PeersUpdate ?p') full_collection = zero_peers 100 @ [?p']"
    by (simp add: full_collection_def id zero_peers_other)
  have "count_peers 0
     (snd (snd (success_commit example_config example_worker example_success_clock no_events
          full_collection (GossipPeer last_point_peer)))) = 101"
    unfolding success_commit_def c0 s
    by (simp add: GossipPeer_def id st count_peers_append count_zero_peers one
          del: apply_call.simps)
  moreover have "fst (success_commit example_config example_worker example_success_clock
          no_events full_collection (GossipPeer last_point_peer)) = Updated"
    unfolding success_commit_def c0 s by simp
  ultimately show ?thesis
    using c0 distinct_full_collection by simp
qed

text \<open>
  C3. The reputation of a stored peer is to stay within \<open>0\<close> and \<open>100\<close>. The
  merge branch of \<^verbatim>\<open>success\<close> caps it at \<open>100\<close>, \<^verbatim>\<open>fail\<close> never raises
  it above the snapshot, and both handlers stop it below \<open>0\<close>; the idle penalty
  subtracts \<open>points\<close> with no guard above, and \<open>points\<close> is negative when the
  clock reading is before \<open>idle.time\<close>. Two calls to \<^verbatim>\<open>success\<close> with no
  merge events on a peer of reputation \<open>100\<close>: the first, at clock reading
  \<open>7200002\<close> and block height \<open>7\<close>, writes the idle record and leaves the
  reputation at \<open>100\<close>; the second, at block height \<open>8\<close> after the clock has
  stepped back by \<open>6000\<close> milliseconds, computes \<open>-1\<close> points and stores the
  record with reputation \<open>101\<close>.
\<close>

theorem reputation_above_bound_after_clock_step_back:
  "reputation_bounded full_reputation_peer \<and>
   fst (success example_config example_worker example_success_clock no_events 0
          (GossipPeer full_reputation_peer)) = Updated \<and>
   reputation_bounded (gp_peer (snd
     (success example_config example_worker example_success_clock no_events 0
        (GossipPeer full_reputation_peer)))) \<and>
   idle (status (gp_peer (snd
     (success example_config example_worker example_success_clock no_events 0
        (GossipPeer full_reputation_peer))))) =
     Some \<lparr>idle_time = 7200002, idle_localBlockHeight = 7\<rparr> \<and>
   fst (success example_config next_worker stepped_back_clock no_events 0
          (snd (success example_config example_worker example_success_clock no_events 0
             (GossipPeer full_reputation_peer)))) = Updated \<and>
   reputation (gp_peer (snd
     (success example_config next_worker stepped_back_clock no_events 0
        (snd (success example_config example_worker example_success_clock no_events 0
           (GossipPeer full_reputation_peer)))))) = 101 \<and>
   \<not> reputation_bounded (gp_peer (snd
     (success example_config next_worker stepped_back_clock no_events 0
        (snd (success example_config example_worker example_success_clock no_events 0
           (GossipPeer full_reputation_peer)))))) \<and>
   last (gp_calls (snd
     (success example_config next_worker stepped_back_clock no_events 0
        (snd (success example_config example_worker example_success_clock no_events 0
           (GossipPeer full_reputation_peer)))))) =
     PeersUpdate (gp_peer (snd
       (success example_config next_worker stepped_back_clock no_events 0
          (snd (success example_config example_worker example_success_clock no_events 0
             (GossipPeer full_reputation_peer))))))"
proof -
  have first: "success example_config example_worker example_success_clock no_events 0
      (GossipPeer full_reputation_peer) =
    (Updated,
     \<lparr>gp_peer = full_reputation_peer
        \<lparr>sequence := 1,
         status := example_status
           \<lparr>backoffUntil := 7200000, lastPullAt := 7200001, lastPullResult := ''success'',
            idle := Some \<lparr>idle_time = 7200002, idle_localBlockHeight = 7\<rparr>\<rparr>\<rparr>,
      gp_deleted = False,
      gp_calls = [PeersUpdate (full_reputation_peer
        \<lparr>sequence := 1,
         status := example_status
           \<lparr>backoffUntil := 7200000, lastPullAt := 7200001, lastPullResult := ''success'',
            idle := Some \<lparr>idle_time = 7200002, idle_localBlockHeight = 7\<rparr>\<rparr>\<rparr>)]\<rparr>)"
    by (simp add: handler_defs example_defs full_reputation_peer_def)
  show ?thesis
    unfolding first
    by (simp add: handler_defs example_defs full_reputation_peer_def next_worker_def
          stepped_back_clock_def reputation_bounded_def)
qed

text \<open>
  What the handlers do keep. If the record a handler finds is within the bounds,
  its snapshotted reputation is at most \<open>100\<close>, and its idle record is not dated
  after the clock reading of the call, then the record the call leaves is within the
  bounds whenever the call does not delete the peer, that record is the one passed to
  \<^verbatim>\<open>_peers.update\<close> when the call stores it, and the two side conditions hold
  of it as well.
\<close>

theorem reputation_bounded_preserved:
  "(reputation_bounded (gp_peer gp) \<longrightarrow> snapshot_bounded (gp_peer gp) \<longrightarrow>
    0 < maxFailureGracePeriod cfg \<longrightarrow>
    fail cfg w fclk fargs gp = (oc, gp') \<longrightarrow> oc \<noteq> Deleted \<longrightarrow>
      reputation_bounded (gp_peer gp') \<and> snapshot_bounded (gp_peer gp') \<and>
      idle (status (gp_peer gp')) = None \<and>
      (oc = Updated \<longrightarrow> gp_calls gp' = gp_calls gp @ [PeersUpdate (gp_peer gp')])) \<and>
   (reputation_bounded (gp_peer gp) \<longrightarrow>
    0 < maxIdleGracePeriod cfg \<longrightarrow>
    idle_not_after (success_now_idle sclk) (gp_peer gp) \<longrightarrow>
    success cfg w sclk sargs peerCount gp = (oc, gp') \<longrightarrow> oc \<noteq> Deleted \<longrightarrow>
      reputation_bounded (gp_peer gp') \<and> snapshot_bounded (gp_peer gp') \<and>
      idle_not_after (success_now_idle sclk) (gp_peer gp') \<and>
      (oc = Updated \<longrightarrow> gp_calls gp' = gp_calls gp @ [PeersUpdate (gp_peer gp')]))"
  using fail_keeps_bounds [of gp cfg w fclk fargs oc gp']
    success_keeps_bounds [of gp cfg sclk w sargs peerCount oc gp']
  by blast

text \<open>
  The third failure of the failing peer as a current witness (the update gives
  \<open>-150\<close>, the record is stored with \<open>0\<close>), and the idle peer losing one point.
\<close>

theorem reputation_bounded_preserved_witness:
  "reputation_bounded (failing_peer\<lparr>peer_id := ''witness-1''\<rparr>) \<and>
   snapshot_bounded (failing_peer\<lparr>peer_id := ''witness-1''\<rparr>) \<and>
   0 < maxFailureGracePeriod example_config \<and>
   fst (fail example_config example_worker example_fail_clock network_failure
          (GossipPeer (failing_peer\<lparr>peer_id := ''witness-1''\<rparr>))) = Updated \<and>
   reputation_bounded (gp_peer (snd (fail example_config example_worker example_fail_clock
          network_failure (GossipPeer (failing_peer\<lparr>peer_id := ''witness-1''\<rparr>))))) \<and>
   reputation_bounded idle_peer \<and>
   0 < maxIdleGracePeriod example_config \<and>
   idle_not_after (success_now_idle example_success_clock) idle_peer \<and>
   fst (success example_config example_worker example_success_clock no_events 0
          (GossipPeer idle_peer)) = Updated \<and>
   reputation_bounded (gp_peer (snd (success example_config example_worker
          example_success_clock no_events 0 (GossipPeer idle_peer))))"
proof -
  let ?wf = "failing_peer\<lparr>peer_id := ''witness-1''\<rparr>"
  note ev = reputation_bounded_def snapshot_bounded_def idle_not_after_def example_defs
  have b1: "reputation_bounded (gp_peer (GossipPeer ?wf))"
    "snapshot_bounded (gp_peer (GossipPeer ?wf))"
    "reputation_bounded (gp_peer (GossipPeer idle_peer))"
    "idle_not_after (success_now_idle example_success_clock) (gp_peer (GossipPeer idle_peer))"
    by (simp_all add: ev)
  have h: "0 < maxFailureGracePeriod example_config" "0 < maxIdleGracePeriod example_config"
    by (simp_all add: example_config_def)
  have u: "fst (fail example_config example_worker example_fail_clock network_failure
             (GossipPeer ?wf)) = Updated"
    by (simp add: handler_defs example_defs)
  have nd: "fst (fail example_config example_worker example_fail_clock network_failure
             (GossipPeer ?wf)) \<noteq> Deleted"
    "fst (success example_config example_worker example_success_clock no_events 0
          (GossipPeer idle_peer)) \<noteq> Deleted"
    using u success_idle_peer [of 0] by simp_all
  note a = reputation_bounded_preserved [THEN conjunct1, rule_format,
      OF b1(1,2) h(1) surjective_pairing nd(1), THEN conjunct1]
  note b = reputation_bounded_preserved [THEN conjunct2, rule_format,
      OF b1(3) h(2) b1(4) surjective_pairing nd(2), THEN conjunct1]
  have "reputation_bounded ?wf" "snapshot_bounded ?wf" "reputation_bounded idle_peer"
    "idle_not_after (success_now_idle example_success_clock) idle_peer"
    using b1 by (simp_all add: GossipPeer_def)
  then show ?thesis
    using h u success_idle_peer [of 0] a b by blast
qed

end
